theory Spec2Isabelle
  imports Main
begin


section \<open>Python values and framework data\<close>

text \<open>
  The program is a graph-construction script: every function takes tensors (handles on
  nodes of the default graph), creates new nodes and variables in that graph and returns
  the handle of the result. A tensor is modelled by the operation that produces it, with
  its inputs, and by its static shape; the default graph by the collections that the
  program reads back, the summaries it registers and the lines it prints.
\<close>

datatype py_error = ValueError | IndexError | ZeroDivisionError | OpError

datatype py_value = PyNone | PyInt int

text \<open>A decimal literal of the source: \<open>Decimal m e\<close> stands for \<open>m * 10 ^ e\<close>.\<close>

datatype decimal = Decimal int int

datatype dtype = TfFloat32 | TfInt64 | TfBool

datatype padding = VALID | SAME

text \<open>A dimension is \<open>None\<close> when unknown; a shape is \<open>None\<close> when its rank is unknown.\<close>

type_synonym dim = "int option"
type_synonym shape = "dim list option"

datatype tensor = Tensor (op_of: op) (get_shape: shape)
and op =
    PlaceholderOp dtype string
  | VariableOp string
  | PadOp tensor "(int \<times> int) list" string
  | Conv2DOp tensor tensor "int list" padding
  | AddOp tensor tensor
  | ReluOp tensor string
  | BatchNormOp tensor "tensor option" "tensor option" tensor tensor training decimal decimal
  | DropoutOp tensor tensor string
  | SqueezeOp tensor "int list"
  | CastOp tensor dtype
  | SparseSoftmaxCrossEntropyOp tensor tensor string
  | MeanOp tensor string
  | ReshapeOp tensor "int list"
and training = PyBool bool | BoolTensor tensor

datatype initializer = XavierConv2d | ConstantInit decimal | ZerosInit | OnesInit

record variable =
  var_name :: string
  var_shape :: "int list"
  var_init :: initializer
  var_trainable :: bool

datatype summary =
    HistogramSummary string tensor
  | ImageSummary string tensor int
  | ScalarSummary string tensor

text \<open>
  The state that graph construction changes: the variable scope and the name scope that
  are open, the graph's collections of variables (in creation order), its summaries, and
  the tensors printed on standard output.
\<close>

record env =
  var_scope :: "string list"
  op_scope :: "string list"
  collections :: "string \<Rightarrow> variable list"
  summaries :: "summary list"
  stdout :: "tensor list"

text \<open>
  A construction step runs in a state and leaves a state, also when it raises: what was
  printed or created before an exception stays.
\<close>

type_synonym 'a build = "env \<Rightarrow> (py_error + 'a) \<times> env"

definition empty_graph :: env where
  "empty_graph = \<lparr>var_scope = [], op_scope = [], collections = (\<lambda>_. []),
     summaries = [], stdout = []\<rparr>"

definition and_then :: "'a build \<Rightarrow> ('a \<Rightarrow> 'b build) \<Rightarrow> 'b build" where
  "and_then m f g = (case m g of (Inl e, g') \<Rightarrow> (Inl e, g') | (Inr x, g') \<Rightarrow> f x g')"

definition ret :: "'a \<Rightarrow> 'a build" where
  "ret x g = (Inr x, g)"

definition lift :: "py_error + 'a \<Rightarrow> 'a build" where
  "lift r g = (r, g)"

definition scoped :: "string list \<Rightarrow> string \<Rightarrow> string" where
  "scoped path n = concat (map (\<lambda>s. s @ ''/'') path) @ n"

text \<open>
  \<open>with tf.variable_scope(s):\<close> opens \<open>s\<close> both as a variable scope and as a name scope
  for the body and closes them afterwards; \<open>with tf.name_scope(s):\<close> opens a name scope
  only. An exception raised in the body leaves through the \<open>with\<close>, which closes
  the scope as well.
\<close>

definition variable_scope :: "string \<Rightarrow> 'a build \<Rightarrow> 'a build" where
  "variable_scope s body g =
     (case body (g\<lparr>var_scope := var_scope g @ [s], op_scope := op_scope g @ [s]\<rparr>) of
        (r, g') \<Rightarrow> (r, g'\<lparr>var_scope := var_scope g, op_scope := op_scope g\<rparr>))"

definition name_scope :: "string \<Rightarrow> 'a build \<Rightarrow> 'a build" where
  "name_scope s body g =
     (case body (g\<lparr>op_scope := op_scope g @ [s]\<rparr>) of
        (r, g') \<Rightarrow> (r, g'\<lparr>op_scope := op_scope g\<rparr>))"

definition py_print :: "tensor \<Rightarrow> unit build" where
  "py_print t g = (Inr (), g\<lparr>stdout := stdout g @ [t]\<rparr>)"

text \<open>
  \<open>int(a / b)\<close> for Python integers: the quotient, truncated towards zero. In Python
  the quotient is a double, which holds it exactly while the operands are below
  \<open>2 ^ 53\<close>; here it is the exact quotient. The operands in this program are sides of
  kernels and numbers of channels, and a padding that does not fit 32 bits is refused by
  \<open>tf_pad\<close> below, so that no layer is built where the two would differ.
\<close>

definition int_truediv :: "int \<Rightarrow> int \<Rightarrow> py_error + int" where
  "int_truediv a b =
     (if b = 0 then Inl ZeroDivisionError
      else Inr (sgn a * sgn b * (\<bar>a\<bar> div \<bar>b\<bar>)))"

text \<open>\<open>str(n)\<close> for a Python integer.\<close>

fun digits :: "nat \<Rightarrow> string" where
  "digits n =
     (if n < 10 then [''0123456789'' ! n]
      else digits (n div 10) @ [''0123456789'' ! (n mod 10)])"

declare digits.simps [simp del]

definition py_str :: "int \<Rightarrow> string" where
  "py_str n = (if n < 0 then CHR ''-'' # digits (nat (- n)) else digits (nat n))"

text \<open>\<open>xs[i]\<close> for a Python list and an index that is not negative.\<close>

definition py_index :: "'a list \<Rightarrow> nat \<Rightarrow> py_error + 'a" where
  "py_index xs i = (if i < length xs then Inr (xs ! i) else Inl IndexError)"

section \<open>The framework's operations\<close>

text \<open>
  What the numerical framework does when the program calls it: the shape each operation
  infers for its result, the errors it raises when the shapes do not fit, and the
  collections a new variable is added to.
\<close>

definition TRAINABLE_VARIABLES :: string where
  "TRAINABLE_VARIABLES = ''trainable_variables''"

definition VARIABLES :: string where
  "VARIABLES = ''variables''"

definition add_to_collection :: "string \<Rightarrow> variable \<Rightarrow> env \<Rightarrow> env" where
  "add_to_collection c v g = g\<lparr>collections := (collections g)(c := collections g c @ [v])\<rparr>"

definition add_to_collections :: "string list \<Rightarrow> variable \<Rightarrow> env \<Rightarrow> env" where
  "add_to_collections cs v g = fold (\<lambda>c. add_to_collection c v) (remdups cs) g"

text \<open>
  \<open>tf.get_variable(name, shape, initializer)\<close> in the open variable scope; \<open>cs\<close> are the
  further collections asked for. The shape of a new variable must be fully defined and
  its dimensions not negative.
\<close>

definition get_variable ::
  "string \<Rightarrow> dim list \<Rightarrow> initializer \<Rightarrow> bool \<Rightarrow> string list \<Rightarrow> tensor build" where
  "get_variable n shp ini trainable cs g =
     (if \<exists>d \<in> set shp. (case d of None \<Rightarrow> True | Some n \<Rightarrow> n < 0) then (Inl ValueError, g)
      else
        let v = \<lparr>var_name = scoped (var_scope g) n, var_shape = map the shp,
                 var_init = ini, var_trainable = trainable\<rparr>
        in (Inr (Tensor (VariableOp (var_name v)) (Some shp)),
                add_to_collections
                  (cs @ [VARIABLES] @ (if trainable then [TRAINABLE_VARIABLES] else [])) v g))"

definition INT32_MAX :: int where
  "INT32_MAX = 2147483647"

text \<open>
  \<open>tf.pad(x, paddings, name)\<close>: the paddings are a 32-bit tensor with one row for each
  dimension of \<open>x\<close>, none negative; each known dimension grows by its two paddings.
\<close>

definition pad_shape :: "shape \<Rightarrow> (int \<times> int) list \<Rightarrow> py_error + shape" where
  "pad_shape s paddings =
     (if \<exists>(lo, hi) \<in> set paddings. lo < 0 \<or> hi < 0 \<or> INT32_MAX < lo \<or> INT32_MAX < hi
      then Inl ValueError
      else case s of
        None \<Rightarrow> Inr (Some (replicate (length paddings) None))
      | Some dims \<Rightarrow>
          if length dims \<noteq> length paddings then Inl ValueError
          else Inr (Some (map2 (\<lambda>d (lo, hi). map_option (\<lambda>n. n + lo + hi) d) dims paddings)))"

definition tf_pad :: "tensor \<Rightarrow> (int \<times> int) list \<Rightarrow> string \<Rightarrow> tensor build" where
  "tf_pad x paddings n g =
     (case pad_shape (get_shape x) paddings of
        Inl e \<Rightarrow> (Inl e, g)
      | Inr s \<Rightarrow> (Inr (Tensor (PadOp x paddings (scoped (op_scope g) n)) s), g))"

text \<open>
  \<open>tf.nn.conv2d(x, kernels, strides, padding)\<close>: one spatial side of the result. With
  VALID padding the kernel must fit in the input and the result has
  \<open>ceil((n - k + 1) / stride)\<close> positions, with SAME padding \<open>ceil(n / stride)\<close>.
\<close>

definition conv_out_size :: "dim \<Rightarrow> int \<Rightarrow> int \<Rightarrow> padding \<Rightarrow> py_error + dim" where
  "conv_out_size d k stride p =
     (case d of
        None \<Rightarrow> Inr None
      | Some n \<Rightarrow>
          (case p of
             VALID \<Rightarrow> if n < k then Inl ValueError else Inr (Some ((n - k + stride) div stride))
           | SAME \<Rightarrow> Inr (Some ((n + stride - 1) div stride))))"

definition conv2d_shape :: "shape \<Rightarrow> shape \<Rightarrow> int list \<Rightarrow> padding \<Rightarrow> py_error + shape" where
  "conv2d_shape s ks strides p =
     (case (case s of None \<Rightarrow> [None, None, None, None] | Some dims \<Rightarrow> dims, ks, strides) of
        ([b, h, w, c], Some [Some kh, Some kw, Some kc, Some kn], [s0, sh, sw, s3]) \<Rightarrow>
          if s0 \<noteq> 1 \<or> s3 \<noteq> 1 \<or> sh < 1 \<or> sw < 1 then Inl ValueError
          else if c \<noteq> None \<and> c \<noteq> Some kc then Inl ValueError
          else
            (case conv_out_size h kh sh p of
               Inl e \<Rightarrow> Inl e
             | Inr oh \<Rightarrow>
                 (case conv_out_size w kw sw p of
                    Inl e \<Rightarrow> Inl e
                  | Inr ow \<Rightarrow> Inr (Some [b, oh, ow, Some kn])))
      | _ \<Rightarrow> Inl ValueError)"

definition tf_conv2d :: "tensor \<Rightarrow> tensor \<Rightarrow> int list \<Rightarrow> padding \<Rightarrow> tensor build" where
  "tf_conv2d x kernels strides p g =
     (case conv2d_shape (get_shape x) (get_shape kernels) strides p of
        Inl e \<Rightarrow> (Inl e, g)
      | Inr s \<Rightarrow> (Inr (Tensor (Conv2DOp x kernels strides p) s), g))"

text \<open>
  \<open>tf.add(x, bias)\<close> with a bias of one dimension broadcasts the bias over the last
  dimension of \<open>x\<close>, which must agree with it; \<open>tf.nn.relu\<close> and \<open>tf.nn.dropout\<close> keep
  the shape.
\<close>

definition add_shape :: "shape \<Rightarrow> shape \<Rightarrow> py_error + shape" where
  "add_shape s bs =
     (case (s, bs) of
        (Some dims, Some [Some n]) \<Rightarrow>
          if dims = [] then Inr (Some [Some n])
          else if last dims = None then Inr (Some (butlast dims @ [Some n]))
          else if last dims = Some n \<or> n = 1 then Inr (Some dims)
          else if last dims = Some 1 then Inr (Some (butlast dims @ [Some n]))
          else Inl ValueError
      | _ \<Rightarrow> Inr None)"

definition tf_add :: "tensor \<Rightarrow> tensor \<Rightarrow> tensor build" where
  "tf_add x b g =
     (case add_shape (get_shape x) (get_shape b) of
        Inl e \<Rightarrow> (Inl e, g)
      | Inr s \<Rightarrow> (Inr (Tensor (AddOp x b) s), g))"

definition tf_relu :: "tensor \<Rightarrow> string \<Rightarrow> tensor build" where
  "tf_relu x n g = (Inr (Tensor (ReluOp x (scoped (op_scope g) n)) (get_shape x)), g)"

definition tf_dropout :: "tensor \<Rightarrow> tensor \<Rightarrow> string \<Rightarrow> tensor build" where
  "tf_dropout x keep_prob n g =
     (Inr (Tensor (DropoutOp x keep_prob (scoped (op_scope g) n)) (get_shape x)), g)"

text \<open>
  \<open>tf.reshape(x, dims)\<close> to a list of known dimensions: the number of elements must be
  the same when that of \<open>x\<close> is known.
\<close>

definition num_elements :: "shape \<Rightarrow> int option" where
  "num_elements s =
     (case s of
        None \<Rightarrow> None
      | Some dims \<Rightarrow> if None \<in> set dims then None else Some (prod_list (map the dims)))"

definition tf_reshape :: "tensor \<Rightarrow> int list \<Rightarrow> tensor build" where
  "tf_reshape x dims g =
     (if num_elements (get_shape x) \<noteq> None \<and> num_elements (get_shape x) \<noteq> Some (prod_list dims)
      then (Inl ValueError, g)
      else (Inr (Tensor (ReshapeOp x dims) (Some (map Some dims))), g))"

definition histogram_summary :: "string \<Rightarrow> tensor \<Rightarrow> unit build" where
  "histogram_summary tag t g = (Inr (), g\<lparr>summaries := summaries g @ [HistogramSummary tag t]\<rparr>)"

definition image_summary :: "string \<Rightarrow> tensor \<Rightarrow> int \<Rightarrow> unit build" where
  "image_summary tag t max_images g =
     (Inr (), g\<lparr>summaries := summaries g @ [ImageSummary tag t max_images]\<rparr>)"


text \<open>
  The name of the node that produces a tensor, for the nodes the program names, and the
  name of the tensor itself: the node's name and \<open>:0\<close>.
\<close>

definition op_name :: "tensor \<Rightarrow> string" where
  "op_name t =
     (case op_of t of
        PlaceholderOp _ n \<Rightarrow> n
      | VariableOp n \<Rightarrow> n
      | PadOp _ _ n \<Rightarrow> n
      | ReluOp _ n \<Rightarrow> n
      | DropoutOp _ _ n \<Rightarrow> n
      | SparseSoftmaxCrossEntropyOp _ _ n \<Rightarrow> n
      | MeanOp _ n \<Rightarrow> n
      | _ \<Rightarrow> [])"

definition tensor_name :: "tensor \<Rightarrow> string" where
  "tensor_name t = op_name t @ '':0''"

text \<open>
  The keyword arguments of \<open>tf.contrib.layers.batch_norm\<close> that the program sets
  (\<open>activation_fn\<close>, \<open>reuse\<close>, \<open>outputs_collections\<close> and \<open>scope\<close> are passed as
  \<open>None\<close>, their defaults).
\<close>

record batch_norm_args =
  decay :: decimal
  center :: bool
  scale :: bool
  epsilon :: decimal
  updates_collections :: "string list option"
  is_training :: training
  variables_collections :: "string list"
  trainable :: bool

text \<open>
  The layer opens the variable scope \<open>BatchNorm\<close>, creates the offset \<open>beta\<close> (when
  \<open>center\<close>) and the factor \<open>gamma\<close> (when \<open>scale\<close>), trainable as asked, and the
  statistics \<open>moving_mean\<close> and \<open>moving_variance\<close>, never trainable, each with one
  entry for each channel of the input, and adds all of them to the collections named in
  \<open>variables_collections\<close>. The number of channels must be known.
\<close>

definition batch_norm :: "tensor \<Rightarrow> batch_norm_args \<Rightarrow> tensor build" where
  "batch_norm inputs a =
     (case get_shape inputs of
        None \<Rightarrow> lift (Inl ValueError)
      | Some dims \<Rightarrow>
          if dims = [] \<or> last dims = None then lift (Inl ValueError)
          else
            variable_scope ''BatchNorm''
              (and_then
                 (if center a
                  then and_then (get_variable ''beta'' [last dims] ZerosInit (trainable a)
                                   (variables_collections a)) (\<lambda>b. ret (Some b))
                  else ret None) (\<lambda>beta.
               and_then
                 (if scale a
                  then and_then (get_variable ''gamma'' [last dims] OnesInit (trainable a)
                                   (variables_collections a)) (\<lambda>c. ret (Some c))
                  else ret None) (\<lambda>gamma.
               and_then (get_variable ''moving_mean'' [last dims] ZerosInit False
                           (variables_collections a)) (\<lambda>moving_mean.
               and_then (get_variable ''moving_variance'' [last dims] OnesInit False
                           (variables_collections a)) (\<lambda>moving_variance.
               ret (Tensor (BatchNormOp inputs beta gamma moving_mean moving_variance
                              (is_training a) (decay a) (epsilon a))
                           (get_shape inputs))))))))"

section \<open>utils.py\<close>

definition log_histogram :: "tensor \<Rightarrow> string \<Rightarrow> unit build" where
  "log_histogram var n = name_scope ''summaries'' (histogram_summary n var)"

definition weight :: "dim list \<Rightarrow> string \<Rightarrow> initializer \<Rightarrow> tensor build" where
  "weight shp n ini =
     and_then (get_variable n shp ini True []) (\<lambda>w.
     and_then (log_histogram w (tensor_name w)) (\<lambda>_.
     ret w))"

definition kernels :: "dim list \<Rightarrow> string \<Rightarrow> initializer \<Rightarrow> tensor build" where
  "kernels shp n ini =
     and_then (weight shp n ini) (\<lambda>w.
     and_then (lift (py_index shp 2)) (\<lambda>depth.
     if depth \<in> {Some 1, Some 3, Some 4}
     then
       name_scope ''summaries''
         (and_then (lift (py_index shp 3)) (\<lambda>num_kernels.
          and_then (lift (int_truediv (the num_kernels) (the depth))) (\<lambda>max_images.
          and_then (lift (py_index shp 0)) (\<lambda>s0.
          and_then (lift (py_index shp 1)) (\<lambda>s1.
          and_then (tf_reshape w [the num_kernels, the s0, the s1, the depth]) (\<lambda>r.
          and_then (image_summary n r max_images) (\<lambda>_.
          ret w)))))))
     else ret w))"

definition bias :: "dim list \<Rightarrow> string \<Rightarrow> decimal \<Rightarrow> tensor build" where
  "bias shp n init_val =
     and_then (get_variable n shp (ConstantInit init_val) True []) (\<lambda>b.
     and_then (log_histogram b (tensor_name b)) (\<lambda>_.
     ret b))"

section \<open>pgnet.py: the layers\<close>

definition INPUT_SIDE :: int where "INPUT_SIDE = 192"
definition INPUT_DEPTH :: int where "INPUT_DEPTH = 3"
definition DOWNSAMPLING_FACTOR :: int where "DOWNSAMPLING_FACTOR = 8"
definition KERNEL_SIDE :: int where "KERNEL_SIDE = 3"
definition LAST_KERNEL_SIDE :: int where "LAST_KERNEL_SIDE = KERNEL_SIDE"
definition LAST_CONV_STRIDE :: int where "LAST_CONV_STRIDE = 1"
definition FC_NEURONS :: int where "FC_NEURONS = 2048"
definition BATCH_SIZE :: int where "BATCH_SIZE = 256"
definition OUTPUT_TENSOR_NAME :: string where "OUTPUT_TENSOR_NAME = ''softmax_linear/out''"
definition REQUIRED_NON_TRAINABLES :: string where
  "REQUIRED_NON_TRAINABLES = ''required_vars_collection''"

text \<open>\<open>ReLU(conv2d(x, kernels, padding, strides) + bias)\<close>, not normalised.\<close>

definition conv_layer :: "tensor \<Rightarrow> dim list \<Rightarrow> padding \<Rightarrow> int list \<Rightarrow> tensor build" where
  "conv_layer input_x kernel_shape p strides =
     and_then (lift (py_index kernel_shape 3)) (\<lambda>num_kernels.
     and_then (kernels kernel_shape ''kernels'' XavierConv2d) (\<lambda>ks.
     and_then (bias [num_kernels] ''bias'' (Decimal 0 0)) (\<lambda>b.
     and_then (tf_conv2d input_x ks strides p) (\<lambda>c.
     and_then (tf_add c b) (\<lambda>s.
     tf_relu s ''out'')))))"

text \<open>
  \<open>input_x.get_shape()[3].value\<close>: a shape of unknown rank answers every index with an
  unknown dimension, a shape of known rank raises when the index is out of range.
\<close>

definition shape_index :: "shape \<Rightarrow> nat \<Rightarrow> py_error + dim" where
  "shape_index s i = (case s of None \<Rightarrow> Inr None | Some dims \<Rightarrow> py_index dims i)"

text \<open>The padded, normalised convolution: \<open>batch_norm(conv_layer(input_padded))\<close>.\<close>

definition eq_conv_layer ::
  "tensor \<Rightarrow> int \<Rightarrow> int \<Rightarrow> int list \<Rightarrow> training \<Rightarrow> tensor build" where
  "eq_conv_layer input_x kernel_side num_kernels strides is_training_ph =
     variable_scope ''eq_conv_layer''
       (and_then (lift (shape_index (get_shape input_x) 3)) (\<lambda>depth.
        let kernel_shape = [Some kernel_side, Some kernel_side, depth, Some num_kernels] in
        and_then (lift (int_truediv (kernel_side - 1) 2)) (\<lambda>pad_amount.
        and_then (tf_pad input_x [(0, 0), (pad_amount, pad_amount),
                                  (pad_amount, pad_amount), (0, 0)] ''input_padded'')
          (\<lambda>input_padded.
        and_then (py_print input_padded) (\<lambda>_.
        and_then (conv_layer input_padded kernel_shape VALID strides) (\<lambda>conv.
        batch_norm conv
          \<lparr>decay = Decimal 999 (- 3), center = True, scale = True,
           epsilon = Decimal 1 (- 3), updates_collections = None,
           is_training = is_training_ph,
           variables_collections = [REQUIRED_NON_TRAINABLES], trainable = True\<rparr>))))))"

section \<open>pgnet.py: the network\<close>

text \<open>
  The placeholders \<open>images_\<close>, \<open>keep_prob_\<close> and \<open>is_training_\<close> of the source are
  written \<open>images_ph\<close>, \<open>keep_prob_ph\<close> and \<open>is_training_ph\<close>. The flag handed to the
  normalisation is the placeholder or, outside the train phase, Python's \<open>False\<close>.
\<close>

definition get :: "int \<Rightarrow> tensor \<Rightarrow> tensor \<Rightarrow> training \<Rightarrow> bool \<Rightarrow> tensor build" where
  "get num_classes images_ph keep_prob_ph is_training_arg train_phase =
     (let is_training_ph = (if train_phase = False then PyBool False else is_training_arg) in
      and_then (py_print images_ph) (\<lambda>_.
      let num_kernels = 2 ^ 7 in
      and_then
        (variable_scope (py_str num_kernels)
           (and_then (variable_scope ''conv1''
                        (eq_conv_layer images_ph KERNEL_SIDE num_kernels [1, 2, 2, 1]
                           is_training_ph)) (\<lambda>conv1.
            and_then (py_print conv1) (\<lambda>_.
            and_then (variable_scope ''conv2''
                        (eq_conv_layer conv1 KERNEL_SIDE num_kernels [1, 2, 2, 1]
                           is_training_ph)) (\<lambda>conv2.
            and_then (py_print conv2) (\<lambda>_.
            ret conv2)))))) (\<lambda>conv2.
      let num_kernels = num_kernels * 2 in
      and_then
        (variable_scope (py_str num_kernels)
           (and_then (variable_scope ''conv3''
                        (eq_conv_layer conv2 KERNEL_SIDE num_kernels [1, 2, 2, 1]
                           is_training_ph)) (\<lambda>conv3.
            and_then (py_print conv3) (\<lambda>_.
            and_then (variable_scope ''conv4''
                        (eq_conv_layer conv3 KERNEL_SIDE num_kernels [1, 2, 2, 1]
                           is_training_ph)) (\<lambda>conv4.
            and_then (py_print conv4) (\<lambda>_.
            ret conv4)))))) (\<lambda>conv4.
      let num_kernels = num_kernels * 2 in
      and_then
        (variable_scope (py_str num_kernels)
           (and_then (variable_scope ''conv5''
                        (eq_conv_layer conv4 KERNEL_SIDE num_kernels [1, 2, 2, 1]
                           is_training_ph)) (\<lambda>conv5.
            and_then (py_print conv5) (\<lambda>_.
            and_then (variable_scope ''conv6''
                        (eq_conv_layer conv5 KERNEL_SIDE num_kernels [1, 2, 2, 1]
                           is_training_ph)) (\<lambda>conv6.
            and_then (py_print conv6) (\<lambda>_.
            ret conv6)))))) (\<lambda>conv6.
      and_then
        (variable_scope ''fc1''
           (and_then (conv_layer conv6
                        [Some LAST_KERNEL_SIDE, Some LAST_KERNEL_SIDE, Some num_kernels,
                         Some FC_NEURONS] VALID [1, 1, 1, 1]) (\<lambda>fc1.
            if train_phase = False then ret fc1
            else tf_dropout fc1 keep_prob_ph ''dropout''))) (\<lambda>dropout1.
      and_then (py_print dropout1) (\<lambda>_.
      and_then
        (variable_scope ''fc2''
           (and_then (conv_layer dropout1 [Some 1, Some 1, Some FC_NEURONS, Some FC_NEURONS]
                        VALID [1, 1, 1, 1]) (\<lambda>fc2.
            if train_phase = False then ret fc2
            else tf_dropout fc2 keep_prob_ph ''dropout''))) (\<lambda>dropout2.
      and_then (py_print dropout2) (\<lambda>_.
      and_then
        (variable_scope ''softmax_linear''
           (conv_layer dropout2 [Some 1, Some 1, Some FC_NEURONS, Some num_classes]
              VALID [1, 1, 1, 1])) (\<lambda>out.
      and_then (py_print out) (\<lambda>_.
      ret out)))))))))))"

section \<open>pgnet.py: loss, optimiser and the variables to save\<close>











definition trainable_variables :: "env \<Rightarrow> variable list" where
  "trainable_variables g = collections g TRAINABLE_VARIABLES"

definition all_variables :: "env \<Rightarrow> variable list" where
  "all_variables g = collections g VARIABLES"

definition get_collection_ref :: "string \<Rightarrow> env \<Rightarrow> variable list" where
  "get_collection_ref c g = collections g c"




definition variables_to_save :: "variable list \<Rightarrow> env \<Rightarrow> variable list" where
  "variables_to_save addlist g =
     trainable_variables g @ get_collection_ref REQUIRED_NON_TRAINABLES g @ addlist"

section \<open>pgnet.py: the model and its export\<close>

definition tf_placeholder :: "dtype \<Rightarrow> shape \<Rightarrow> string \<Rightarrow> tensor build" where
  "tf_placeholder t s n g = (Inr (Tensor (PlaceholderOp t (scoped (op_scope g) n)) s), g)"

definition define_model ::
  "int \<Rightarrow> bool \<Rightarrow> (tensor \<times> tensor \<times> tensor \<times> tensor) build" where
  "define_model num_classes train_phase =
     and_then (tf_placeholder TfBool (Some []) ''is_training_'') (\<lambda>is_training_ph.
     and_then (tf_placeholder TfFloat32 (Some []) ''keep_prob_'') (\<lambda>keep_prob_ph.
     and_then (tf_placeholder TfFloat32
                 (Some [None, Some INPUT_SIDE, Some INPUT_SIDE, Some INPUT_DEPTH])
                 ''images_'') (\<lambda>images_ph.
     and_then (get num_classes images_ph keep_prob_ph (BoolTensor is_training_ph) train_phase)
       (\<lambda>logits.
     ret (is_training_ph, keep_prob_ph, images_ph, logits)))))"

text \<open>
  What \<open>export_model\<close> does outside the graph, in order: the events of a run. The files
  that exist, and what restoring from a checkpoint path does (it succeeds, raises
  \<open>ValueError\<close>, or raises another error of the framework) belong to the world the
  function runs in.
\<close>

datatype restore_result = Restored | RestoreValueError | RestoreOpError

record freeze_args =
  input_graph :: string
  input_saver :: string
  input_binary :: bool
  input_checkpoint_path :: string
  output_node_names :: string
  restore_op_name :: string
  filename_tensor_name :: string
  output_graph :: string
  clear_devices :: bool
  initializer_nodes :: string

datatype event =
    GraphCreated string
  | ModelDefined int bool env
  | SaverCreated "variable list"
  | SessionOpened
  | SessionClosed
  | RestoreCalled string
  | GraphWritten env string string bool
  | FreezeGraphCalled freeze_args
  | StdoutTensor tensor
  | StdoutLine string
  | StderrLine string

record world =
  files :: "string set"
  restore :: "string \<Rightarrow> restore_result"
  events :: "event list"

definition emit :: "event list \<Rightarrow> world \<Rightarrow> world" where
  "emit es w = w\<lparr>events := events w @ es\<rparr>"

text \<open>\<open>os.path.join(dir, name)\<close> for a relative \<open>name\<close>.\<close>

definition path_join :: "string \<Rightarrow> string \<Rightarrow> string" where
  "path_join dir n = (if dir = [] \<or> last dir = CHR ''/'' then dir @ n else dir @ ''/'' @ n)"

definition write_graph :: "env \<Rightarrow> string \<Rightarrow> string \<Rightarrow> bool \<Rightarrow> world \<Rightarrow> world" where
  "write_graph graph_def logdir n as_text w =
     emit [GraphWritten graph_def logdir n as_text] (w\<lparr>files := insert (path_join logdir n) (files w)\<rparr>)"

definition freeze_graph :: "freeze_args \<Rightarrow> world \<Rightarrow> world" where
  "freeze_graph a w = emit [FreezeGraphCalled a] (w\<lparr>files := insert (output_graph a) (files w)\<rparr>)"

definition export_model ::
  "int \<Rightarrow> string \<Rightarrow> string \<Rightarrow> string \<Rightarrow> world \<Rightarrow> (py_error + py_value) \<times> world" where
  "export_model num_classes session_dir input_checkpoint model_filename w =
     (if model_filename \<notin> files w then
        let w1 = emit [GraphCreated ''/cpu:0''] w;
            (r, graph) = define_model num_classes False empty_graph;
            w2 = emit (map StdoutTensor (stdout graph)) w1
        in case r of
             Inl e \<Rightarrow> (Inl e, w2)
           | Inr _ \<Rightarrow>
               let w3 = emit [ModelDefined num_classes False graph,
                              SaverCreated (all_variables graph), SessionOpened,
                              RestoreCalled (session_dir @ ''/'' @ input_checkpoint)] w2
               in case restore w (session_dir @ ''/'' @ input_checkpoint) of
                    RestoreValueError \<Rightarrow>
                      (Inr (PyInt (- 1)),
                       emit [StderrLine ''[E] Unable to restore from checkpoint'',
                             SessionClosed] w3)
                  | RestoreOpError \<Rightarrow> (Inl OpError, emit [SessionClosed] w3)
                  | Restored \<Rightarrow>
                      let w4 = write_graph graph session_dir ''skeleton.pbtxt'' True w3;
                          w5 = freeze_graph
                                 \<lparr>input_graph = session_dir @ ''/skeleton.pbtxt'',
                                  input_saver = [], input_binary = False,
                                  input_checkpoint_path = session_dir @ ''/'' @ input_checkpoint,
                                  output_node_names = OUTPUT_TENSOR_NAME,
                                  restore_op_name = ''save/restore_all'',
                                  filename_tensor_name = ''save/Const:0'',
                                  output_graph = model_filename, clear_devices = True,
                                  initializer_nodes = []\<rparr> w4
                      in (Inr PyNone, emit [SessionClosed] w5)
      else
        (Inr PyNone, emit [StdoutLine (model_filename @ '' already exists. Skipping export_model'')] w))"

section \<open>What the claims observe\<close>

text \<open>
  The data path of a tensor: the tensor itself, then the tensor its operation transforms
  (the first input: the image side of a convolution, not its kernels), and so on back to
  a placeholder or a variable.
\<close>

fun path :: "tensor \<Rightarrow> tensor list" where
  "path (Tensor oper s) =
     Tensor oper s #
       (case oper of
          PadOp x _ _ \<Rightarrow> path x
        | Conv2DOp x _ _ _ \<Rightarrow> path x
        | AddOp x _ \<Rightarrow> path x
        | ReluOp x _ \<Rightarrow> path x
        | BatchNormOp x _ _ _ _ _ _ _ \<Rightarrow> path x
        | DropoutOp x _ _ \<Rightarrow> path x
        | SqueezeOp x _ \<Rightarrow> path x
        | CastOp x _ \<Rightarrow> path x
        | SparseSoftmaxCrossEntropyOp x _ _ \<Rightarrow> path x
        | MeanOp x _ \<Rightarrow> path x
        | ReshapeOp x _ \<Rightarrow> path x
        | _ \<Rightarrow> [])"

text \<open>
  The kind of an operation, with the attributes the claims speak of: the paddings of a
  padding, the kernel shape, strides and padding scheme of a convolution. Operations
  that are none of the six kinds the network is made of are \<open>OtherL\<close>.
\<close>

datatype layer =
    PadL "(int \<times> int) list"
  | ConvL "dim list" "int list" padding
  | AddL
  | ReluL
  | BatchNormL
  | DropoutL
  | OtherL

definition describe :: "tensor \<Rightarrow> layer" where
  "describe t =
     (case op_of t of
        PadOp _ ps _ \<Rightarrow> PadL ps
      | Conv2DOp _ k st p \<Rightarrow> ConvL (case get_shape k of None \<Rightarrow> [] | Some ds \<Rightarrow> ds) st p
      | AddOp _ _ \<Rightarrow> AddL
      | ReluOp _ _ \<Rightarrow> ReluL
      | BatchNormOp _ _ _ _ _ _ _ _ \<Rightarrow> BatchNormL
      | DropoutOp _ _ _ \<Rightarrow> DropoutL
      | _ \<Rightarrow> OtherL)"

text \<open>
  The operations applied to \<open>inp\<close> to obtain \<open>out\<close>, the first applied first: what
  the data path of \<open>out\<close> has above the data path of \<open>inp\<close>.
\<close>

definition applied :: "tensor \<Rightarrow> tensor \<Rightarrow> tensor list" where
  "applied inp out = rev (take (length (path out) - length (path inp)) (path out))"

text \<open>
  The operations of one padded, normalised convolution block with kernel side \<open>k\<close>,
  \<open>d\<close> input channels and \<open>n\<close> kernels, and those of one plain convolution layer.
\<close>

definition eq_conv_block :: "int \<Rightarrow> int \<Rightarrow> int \<Rightarrow> int list \<Rightarrow> layer list" where
  "eq_conv_block k d n strides =
     [PadL [(0, 0), ((k - 1) div 2, (k - 1) div 2), ((k - 1) div 2, (k - 1) div 2), (0, 0)],
      ConvL [Some k, Some k, Some d, Some n] strides VALID, AddL, ReluL, BatchNormL]"

definition conv_block :: "dim list \<Rightarrow> padding \<Rightarrow> int list \<Rightarrow> layer list" where
  "conv_block ks p strides = [ConvL ks strides p, AddL, ReluL]"

text \<open>
  Whether a tensor is the output of a batch normalisation, and hence of a block; the
  training flag a batch normalisation was given; whether an operation leaves the spatial
  size free; the variables of a batch normalisation created in the variable scope \<open>vs\<close>,
  and the names of the two statistics that a batch normalisation reads.
\<close>

definition is_batch_norm :: "tensor \<Rightarrow> bool" where
  "is_batch_norm t \<longleftrightarrow> describe t = BatchNormL"

definition training_flag :: "tensor \<Rightarrow> training option" where
  "training_flag t =
     (case op_of t of BatchNormOp _ _ _ _ _ flag _ _ \<Rightarrow> Some flag | _ \<Rightarrow> None)"


definition bn_var :: "string list \<Rightarrow> string \<Rightarrow> int \<Rightarrow> initializer \<Rightarrow> bool \<Rightarrow> variable" where
  "bn_var vs n c ini tr =
     \<lparr>var_name = scoped (vs @ [''BatchNorm'']) n, var_shape = [c], var_init = ini,
      var_trainable = tr\<rparr>"

definition bn_statistics :: "tensor \<Rightarrow> string list" where
  "bn_statistics t =
     (case op_of t of
        BatchNormOp _ _ _ moving_mean moving_variance _ _ _ \<Rightarrow>
          [op_name moving_mean, op_name moving_variance]
      | _ \<Rightarrow> [])"

text \<open>
  The steps of an export among the events of a run, and the events that a run adds to
  those of the world it starts in. \<open>model_graph n\<close> is the graph that \<open>define_model\<close>
  leaves behind in a fresh graph.
\<close>

datatype step = DefineStep | RestoreStep | WriteStep | FreezeStep

definition main_step :: "event \<Rightarrow> step option" where
  "main_step e =
     (case e of
        ModelDefined _ _ _ \<Rightarrow> Some DefineStep
      | RestoreCalled _ \<Rightarrow> Some RestoreStep
      | GraphWritten _ _ _ _ \<Rightarrow> Some WriteStep
      | FreezeGraphCalled _ \<Rightarrow> Some FreezeStep
      | _ \<Rightarrow> None)"

fun main_steps :: "event list \<Rightarrow> step list" where
  "main_steps [] = []"
| "main_steps (e # es) = (case main_step e of None \<Rightarrow> main_steps es | Some s \<Rightarrow> s # main_steps es)"

definition new_events :: "world \<Rightarrow> world \<Rightarrow> event list" where
  "new_events w w' = drop (length (events w)) (events w')"

definition model_graph :: "int \<Rightarrow> env" where
  "model_graph num_classes = snd (define_model num_classes False empty_graph)"

text \<open>
  Concrete inputs: the placeholders that \<open>define_model\<close> creates, a batch of eight
  images of 300 by 600, logits and labels for the loss, and three worlds: one where every
  restore raises \<open>ValueError\<close>, one where every restore succeeds, and one where the
  model file exists already.
\<close>

definition sample_images :: tensor where
  "sample_images =
     Tensor (PlaceholderOp TfFloat32 ''images_'')
       (Some [None, Some INPUT_SIDE, Some INPUT_SIDE, Some INPUT_DEPTH])"


definition sample_num_classes :: int where
  "sample_num_classes = 10"

definition sample_keep_prob :: tensor where
  "sample_keep_prob = Tensor (PlaceholderOp TfFloat32 ''keep_prob_'') (Some [])"

definition sample_is_training :: training where
  "sample_is_training = BoolTensor (Tensor (PlaceholderOp TfBool ''is_training_'') (Some []))"

definition sample_logits :: tensor where
  "sample_logits = Tensor (PlaceholderOp TfFloat32 ''logits'') (Some [None, Some 1, Some 1, Some 10])"


definition failing_world :: world where
  "failing_world = \<lparr>files = {}, restore = (\<lambda>_. RestoreValueError), events = []\<rparr>"

definition restoring_world :: world where
  "restoring_world = \<lparr>files = {}, restore = (\<lambda>_. Restored), events = []\<rparr>"

definition exported_world :: world where
  "exported_world = \<lparr>files = {''model.pb''}, restore = (\<lambda>_. Restored), events = []\<rparr>"

section \<open>Auxiliary notions for the proofs\<close>

text \<open>
  Construction only adds: \<open>extends g g'\<close> says that \<open>g'\<close> has the scopes of \<open>g\<close> and
  collections that prolong those of \<open>g\<close>; \<open>keeps c g g'\<close> that the collection \<open>c\<close> is the
  same. A list of dimensions is \<open>known\<close> when all are given and none is negative.
\<close>

definition extends :: "env \<Rightarrow> env \<Rightarrow> bool" where
  "extends g g' \<longleftrightarrow> var_scope g' = var_scope g \<and> op_scope g' = op_scope g
     \<and> (\<forall>c. \<exists>vs. collections g' c = collections g c @ vs)"

definition keeps :: "string \<Rightarrow> env \<Rightarrow> env \<Rightarrow> bool" where
  "keeps c g g' \<longleftrightarrow> collections g' c = collections g c"

definition known :: "dim list \<Rightarrow> bool" where
  "known shp \<longleftrightarrow> (\<forall>d \<in> set shp. \<exists>v. d = Some v \<and> 0 \<le> v)"

text \<open>
  The tensors that the layers return, as terms: the result of \<open>conv_layer\<close>, of
  \<open>batch_norm\<close> and of \<open>eq_conv_layer\<close> in given scopes, with the shapes inferred for
  the padded input and for the output; the four variables of a batch normalisation; the
  arguments \<open>eq_conv_layer\<close> passes to it.
\<close>

definition conv_out ::
  "string list \<Rightarrow> string list \<Rightarrow> tensor \<Rightarrow> dim list \<Rightarrow> padding \<Rightarrow> int list \<Rightarrow> shape \<Rightarrow> tensor" where
  "conv_out vs os x ks p st s =
     Tensor (ReluOp
       (Tensor (AddOp
          (Tensor (Conv2DOp x (Tensor (VariableOp (scoped vs ''kernels'')) (Some ks)) st p) s)
          (Tensor (VariableOp (scoped vs ''bias'')) (Some [ks ! 3]))) s)
       (scoped os ''out'')) s"

definition bn_out :: "string list \<Rightarrow> tensor \<Rightarrow> int \<Rightarrow> batch_norm_args \<Rightarrow> tensor" where
  "bn_out vs x c a =
     Tensor (BatchNormOp x
        (Some (Tensor (VariableOp (scoped (vs @ [''BatchNorm'']) ''beta'')) (Some [Some c])))
        (Some (Tensor (VariableOp (scoped (vs @ [''BatchNorm'']) ''gamma'')) (Some [Some c])))
        (Tensor (VariableOp (scoped (vs @ [''BatchNorm'']) ''moving_mean'')) (Some [Some c]))
        (Tensor (VariableOp (scoped (vs @ [''BatchNorm'']) ''moving_variance'')) (Some [Some c]))
        (is_training a) (decay a) (epsilon a)) (get_shape x)"

definition eq_bn_args :: "training \<Rightarrow> batch_norm_args" where
  "eq_bn_args it = \<lparr>decay = Decimal 999 (- 3), center = True, scale = True,
           epsilon = Decimal 1 (- 3), updates_collections = None,
           is_training = it,
           variables_collections = [REQUIRED_NON_TRAINABLES], trainable = True\<rparr>"

definition eq_conv_out ::
  "string list \<Rightarrow> string list \<Rightarrow> tensor \<Rightarrow> int \<Rightarrow> int \<Rightarrow> int \<Rightarrow> int \<Rightarrow> int list \<Rightarrow> training
     \<Rightarrow> shape \<Rightarrow> shape \<Rightarrow> tensor" where
  "eq_conv_out vs os x k d n pa st it s1 s2 =
     bn_out (vs @ [''eq_conv_layer''])
       (conv_out (vs @ [''eq_conv_layer'']) (os @ [''eq_conv_layer''])
          (Tensor (PadOp x [(0, 0), (pa, pa), (pa, pa), (0, 0)]
                     (scoped (os @ [''eq_conv_layer'']) ''input_padded'')) s1)
          [Some k, Some k, Some d, Some n] VALID st s2)
       n (eq_bn_args it)"

definition bn_vars :: "string list \<Rightarrow> int \<Rightarrow> variable list" where
  "bn_vars vs n =
     [bn_var vs ''beta'' n ZerosInit True, bn_var vs ''gamma'' n OnesInit True,
      bn_var vs ''moving_mean'' n ZerosInit False, bn_var vs ''moving_variance'' n OnesInit False]"

definition stat_names :: "string list \<Rightarrow> string list" where
  "stat_names vs =
     [var_name (bn_var (vs @ [''eq_conv_layer'']) ''moving_mean'' 0 ZerosInit False),
      var_name (bn_var (vs @ [''eq_conv_layer'']) ''moving_variance'' 0 OnesInit False)]"

text \<open>
  One step of \<open>get\<close> relates the input of a layer to its output: a block, a dense
  layer, a dropout that is there in the train phase only.
\<close>

definition eq_step :: "string list \<Rightarrow> string list \<Rightarrow> training \<Rightarrow> int \<Rightarrow> tensor \<Rightarrow> tensor \<Rightarrow> bool" where
  "eq_step vs os it n x y \<longleftrightarrow>
     (\<exists>b h w d s1 s2.
        get_shape x = Some [b, h, w, Some d]
      \<and> pad_shape (get_shape x) [(0, 0), (1, 1), (1, 1), (0, 0)] = Inr s1
      \<and> conv2d_shape s1 (Some [Some 3, Some 3, Some d, Some n]) [1, 2, 2, 1] VALID = Inr s2
      \<and> y = eq_conv_out vs os x 3 d n 1 [1, 2, 2, 1] it s1 s2)"

definition conv_step :: "string list \<Rightarrow> string list \<Rightarrow> dim list \<Rightarrow> tensor \<Rightarrow> tensor \<Rightarrow> bool" where
  "conv_step vs os ks x y \<longleftrightarrow>
     (\<exists>s. conv2d_shape (get_shape x) (Some ks) [1, 1, 1, 1] VALID = Inr s
      \<and> y = conv_out vs os x ks VALID [1, 1, 1, 1] s)"

definition drop_step :: "string list \<Rightarrow> bool \<Rightarrow> tensor \<Rightarrow> tensor \<Rightarrow> tensor \<Rightarrow> bool" where
  "drop_step os tp kp x y \<longleftrightarrow>
     (if tp then y = Tensor (DropoutOp x kp (scoped os ''dropout'')) (get_shape x) else y = x)"

text \<open>
  \<open>between x y f ds\<close>: the data path of \<open>y\<close> prolongs that of \<open>x\<close>, and \<open>f\<close> maps the
  operations in between, first applied first, to \<open>ds\<close>. The whole network as a list of
  operations, an operation with its shape, and the trace of one block.
\<close>

definition between :: "tensor \<Rightarrow> tensor \<Rightarrow> (tensor \<Rightarrow> 'a) \<Rightarrow> 'a list \<Rightarrow> bool" where
  "between x y f ds \<longleftrightarrow> (\<exists>ns. path y = ns @ path x \<and> map f (rev ns) = ds)"

definition network_layers :: "int \<Rightarrow> int \<Rightarrow> bool \<Rightarrow> layer list" where
  "network_layers d num_classes train_phase =
     eq_conv_block 3 d 128 [1, 2, 2, 1] @ eq_conv_block 3 128 128 [1, 2, 2, 1]
   @ eq_conv_block 3 128 256 [1, 2, 2, 1] @ eq_conv_block 3 256 256 [1, 2, 2, 1]
   @ eq_conv_block 3 256 512 [1, 2, 2, 1] @ eq_conv_block 3 512 512 [1, 2, 2, 1]
   @ conv_block [Some 3, Some 3, Some 512, Some 2048] VALID [1, 1, 1, 1]
   @ (if train_phase then [DropoutL] else [])
   @ conv_block [Some 1, Some 1, Some 2048, Some 2048] VALID [1, 1, 1, 1]
   @ (if train_phase then [DropoutL] else [])
   @ conv_block [Some 1, Some 1, Some 2048, Some num_classes] VALID [1, 1, 1, 1]"

definition traced :: "tensor \<Rightarrow> layer \<times> shape" where
  "traced t = (describe t, get_shape t)"

definition halved :: "int \<Rightarrow> int" where "halved n = (n + 1) div 2"

definition eq_trace :: "dim \<Rightarrow> int \<Rightarrow> int \<Rightarrow> int \<Rightarrow> int \<Rightarrow> (layer \<times> shape) list" where
  "eq_trace b h w d n =
     (let s = Some [b, Some (halved h), Some (halved w), Some n]
      in zip (eq_conv_block 3 d n [1, 2, 2, 1])
           [Some [b, Some (h + 2), Some (w + 2), Some d], s, s, s, s])"

text \<open>
  \<open>post m P\<close>: in every state \<open>m\<close> returns without an exception, and what it returns
  satisfies \<open>P\<close>.
\<close>

definition post :: "'a build \<Rightarrow> ('a \<Rightarrow> bool) \<Rightarrow> bool" where
  "post m P \<longleftrightarrow> (\<forall>g. \<exists>x g'. m g = (Inr x, g') \<and> P x)"

section \<open>Auxiliary lemmas\<close>

lemma extends_refl: "extends g g" by (simp add: extends_def)

lemma extends_trans: "extends g g1 \<Longrightarrow> extends g1 g2 \<Longrightarrow> extends g g2"
  by (auto simp: extends_def) (metis append.assoc)

lemma and_thenE:
  assumes "and_then m f g = (Inr y, g')"
  obtains x g1 where "m g = (Inr x, g1)" "f x g1 = (Inr y, g')"
  using assms by (auto simp: and_then_def split: prod.splits sum.splits)

lemma and_then_extends:
  assumes "\<And>g. extends g (snd (m g))" "\<And>x g. extends g (snd (f x g))"
  shows "extends g (snd (and_then m f g))"
proof (cases "m g")
  case (Pair r g1)
  have 1: "extends g g1" using assms(1)[of g] Pair by simp
  show ?thesis
  proof (cases r)
    case (Inl e) then show ?thesis using Pair 1 by (simp add: and_then_def)
  next
    case (Inr x)
    then show ?thesis using Pair 1 assms(2)[of g1 x] by (auto simp: and_then_def intro: extends_trans)
  qed
qed

lemma variable_scope_extends:
  assumes "\<And>g. extends g (snd (body g))"
  shows "extends g (snd (variable_scope s body g))"
  using assms[of "g\<lparr>var_scope := var_scope g @ [s], op_scope := op_scope g @ [s]\<rparr>"]
  by (auto simp: variable_scope_def extends_def split: prod.splits)

lemma name_scope_extends:
  assumes "\<And>g. extends g (snd (body g))"
  shows "extends g (snd (name_scope s body g))"
  using assms[of "g\<lparr>op_scope := op_scope g @ [s]\<rparr>"]
  by (auto simp: name_scope_def extends_def split: prod.splits)

lemma add_to_collection_extends: "extends g (add_to_collection c v g)"
  by (auto simp: extends_def add_to_collection_def)

lemma add_to_collections_extends: "extends g (fold (\<lambda>c. add_to_collection c v) cs g)"
  by (induction cs arbitrary: g) (auto intro: extends_refl extends_trans add_to_collection_extends)

lemma get_variable_extends: "extends g (snd (get_variable n shp ini tr cs g))"
  using add_to_collections_extends by (auto simp: get_variable_def Let_def add_to_collections_def extends_refl)

lemma prim_extends:
  "extends g (snd (ret x g))" "extends g (snd (lift r g))" "extends g (snd (py_print t g))"
  "extends g (snd (tf_pad x1 ps n g))" "extends g (snd (tf_conv2d x2 k st p g))"
  "extends g (snd (tf_add x3 b g))" "extends g (snd (tf_relu x4 n g))"
  "extends g (snd (tf_dropout x5 kp n g))" "extends g (snd (tf_reshape x6 ds g))"
  "extends g (snd (histogram_summary tag t g))" "extends g (snd (image_summary tag t mi g))"
  by (auto simp: extends_def ret_def lift_def py_print_def tf_pad_def tf_conv2d_def tf_add_def tf_relu_def
      tf_dropout_def tf_reshape_def histogram_summary_def image_summary_def split: sum.splits)

lemma if_extends:
  "(c \<Longrightarrow> extends g (snd (a g))) \<Longrightarrow> (\<not> c \<Longrightarrow> extends g (snd (b g)))
    \<Longrightarrow> extends g (snd ((if c then a else b) g))"
  by simp

lemmas ext_intros = and_then_extends variable_scope_extends name_scope_extends get_variable_extends
  prim_extends if_extends

lemma weight_extends: "extends g (snd (weight shp n ini g))"
  unfolding weight_def log_histogram_def by (intro ext_intros)

lemma bias_extends: "extends g (snd (bias shp n v g))"
  unfolding bias_def log_histogram_def by (intro ext_intros)

lemma kernels_extends: "extends g (snd (kernels shp n ini g))"
  unfolding kernels_def by (intro ext_intros weight_extends)

lemma conv_layer_extends: "extends g (snd (conv_layer x ks p st g))"
  unfolding conv_layer_def by (intro ext_intros kernels_extends bias_extends)

lemma batch_norm_extends: "extends g (snd (batch_norm x a g))"
  unfolding batch_norm_def by (cases "get_shape x") (auto intro!: ext_intros)

lemma eq_conv_layer_extends: "extends g (snd (eq_conv_layer x k n st it g))"
  unfolding eq_conv_layer_def Let_def by (intro ext_intros conv_layer_extends batch_norm_extends)

lemma ret_inv: "ret x g = (Inr y, g') \<Longrightarrow> y = x \<and> g' = g" by (simp add: ret_def)

lemma lift_inv: "lift r g = (Inr y, g') \<Longrightarrow> r = Inr y \<and> g' = g" by (simp add: lift_def)

lemma variable_scopeE:
  assumes "variable_scope s body g = (Inr y, g')"
  obtains g1 where "body (g\<lparr>var_scope := var_scope g @ [s], op_scope := op_scope g @ [s]\<rparr>) = (Inr y, g1)"
    "g' = g1\<lparr>var_scope := var_scope g, op_scope := op_scope g\<rparr>"
  using assms by (auto simp: variable_scope_def split: prod.splits)

lemma name_scopeE:
  assumes "name_scope s body g = (Inr y, g')"
  obtains g1 where "body (g\<lparr>op_scope := op_scope g @ [s]\<rparr>) = (Inr y, g1)"
  using assms by (auto simp: name_scope_def split: prod.splits)

lemma get_variable_inv:
  assumes "get_variable n shp ini tr cs g = (Inr w, g')"
  shows "w = Tensor (VariableOp (scoped (var_scope g) n)) (Some shp)"
    and "\<forall>d \<in> set shp. \<exists>v. d = Some v \<and> 0 \<le> v"
  using assms by (auto simp: get_variable_def Let_def split: if_splits option.splits)

lemma weight_inv:
  assumes "weight shp n ini g = (Inr w, g')"
  shows "w = Tensor (VariableOp (scoped (var_scope g) n)) (Some shp)"
    and "\<forall>d \<in> set shp. \<exists>v. d = Some v \<and> 0 \<le> v"
  using assms unfolding weight_def
  by (auto elim!: and_thenE dest!: ret_inv dest: get_variable_inv)

lemma bias_inv:
  assumes "bias shp n v g = (Inr w, g')"
  shows "w = Tensor (VariableOp (scoped (var_scope g) n)) (Some shp)"
  using assms unfolding bias_def
  by (auto elim!: and_thenE dest!: ret_inv dest: get_variable_inv)

lemma kernels_inv:
  assumes "kernels shp n ini g = (Inr w, g')"
  shows "w = Tensor (VariableOp (scoped (var_scope g) n)) (Some shp)"
    and "\<forall>d \<in> set shp. \<exists>v. d = Some v \<and> 0 \<le> v"
proof -
  from assms obtain w0 g0 where w0: "weight shp n ini g = (Inr w0, g0)"
    and rest: "and_then (lift (py_index shp 2)) (\<lambda>depth.
     if depth \<in> {Some 1, Some 3, Some 4}
     then
       name_scope ''summaries''
         (and_then (lift (py_index shp 3)) (\<lambda>num_kernels.
          and_then (lift (int_truediv (the num_kernels) (the depth))) (\<lambda>max_images.
          and_then (lift (py_index shp 0)) (\<lambda>s0.
          and_then (lift (py_index shp 1)) (\<lambda>s1.
          and_then (tf_reshape w0 [the num_kernels, the s0, the s1, the depth]) (\<lambda>r.
          and_then (image_summary n r max_images) (\<lambda>_.
          ret w0)))))))
     else ret w0) g0 = (Inr w, g')"
    unfolding kernels_def by (erule and_thenE)
  have "w = w0" using rest
    by (auto elim!: and_thenE name_scopeE dest!: ret_inv split: if_splits)
  with weight_inv[OF w0] show "w = Tensor (VariableOp (scoped (var_scope g) n)) (Some shp)"
    and "\<forall>d \<in> set shp. \<exists>v. d = Some v \<and> 0 \<le> v" by auto
qed

lemma conv2d_shape_inv:
  assumes "conv2d_shape s ks st p = Inr r"
  shows "\<exists>b h w c kh kw kc kn sh sw oh ow.
           (case s of None \<Rightarrow> [None, None, None, None] | Some dims \<Rightarrow> dims) = [b, h, w, c]
         \<and> ks = Some [Some kh, Some kw, Some kc, Some kn] \<and> st = [1, sh, sw, 1]
         \<and> 1 \<le> sh \<and> 1 \<le> sw \<and> (c = None \<or> c = Some kc)
         \<and> conv_out_size h kh sh p = Inr oh \<and> conv_out_size w kw sw p = Inr ow
         \<and> r = Some [b, oh, ow, Some kn]"
  using assms unfolding conv2d_shape_def
  by (simp split: list.splits option.splits if_splits sum.splits prod.splits)

lemma tf_conv2d_inv:
  assumes "tf_conv2d x k st p g = (Inr c, g')"
  shows "g' = g \<and> (\<exists>s. conv2d_shape (get_shape x) (get_shape k) st p = Inr s
           \<and> c = Tensor (Conv2DOp x k st p) s)"
  using assms by (auto simp: tf_conv2d_def split: sum.splits)

lemma tf_add_inv:
  assumes "tf_add x b g = (Inr c, g')"
  shows "g' = g \<and> (\<exists>s. add_shape (get_shape x) (get_shape b) = Inr s \<and> c = Tensor (AddOp x b) s)"
  using assms by (auto simp: tf_add_def split: sum.splits)

lemma tf_pad_inv:
  assumes "tf_pad x ps n g = (Inr c, g')"
  shows "g' = g \<and> (\<exists>s. pad_shape (get_shape x) ps = Inr s
           \<and> c = Tensor (PadOp x ps (scoped (op_scope g) n)) s)"
  using assms by (auto simp: tf_pad_def split: sum.splits)

lemma conv_layer_inv:
  assumes "conv_layer x ks p st g = (Inr y, g')"
  shows "\<exists>s. conv2d_shape (get_shape x) (Some ks) st p = Inr s
           \<and> y = conv_out (var_scope g) (op_scope g) x ks p st s"
proof -
  from assms obtain nk g0 kt g1 b g2 c g3 sm g4 where
    1: "lift (py_index ks 3) g = (Inr nk, g0)" and
    2: "kernels ks ''kernels'' XavierConv2d g0 = (Inr kt, g1)" and
    3: "bias [nk] ''bias'' (Decimal 0 0) g1 = (Inr b, g2)" and
    4: "tf_conv2d x kt st p g2 = (Inr c, g3)" and
    5: "tf_add c b g3 = (Inr sm, g4)" and
    6: "tf_relu sm ''out'' g4 = (Inr y, g')"
    unfolding conv_layer_def by (elim and_thenE)
  from 1 have g0: "g0 = g" and nk: "py_index ks 3 = Inr nk" by (auto dest: lift_inv)
  have e1: "extends g g1" using kernels_extends[of g0 ks "''kernels''" XavierConv2d] 2 g0 by simp
  have e2: "extends g1 g2" using bias_extends[of g1 "[nk]" "''bias''" "Decimal 0 0"] 3 by simp
  have kt: "kt = Tensor (VariableOp (scoped (var_scope g) ''kernels'')) (Some ks)"
    using kernels_inv(1)[OF 2] g0 by simp
  have b: "b = Tensor (VariableOp (scoped (var_scope g) ''bias'')) (Some [nk])"
    using bias_inv[OF 3] e1 by (simp add: extends_def)
  from tf_conv2d_inv[OF 4] kt obtain s where g3: "g3 = g2"
    and s: "conv2d_shape (get_shape x) (Some ks) st p = Inr s"
    and c: "c = Tensor (Conv2DOp x kt st p) s" by auto
  from conv2d_shape_inv[OF s] nk obtain bb oh ow kh kw kc kn where
    ks: "ks = [Some kh, Some kw, Some kc, Some kn]" and s': "s = Some [bb, oh, ow, Some kn]"
    and nk': "nk = Some kn"
    by (auto simp: py_index_def)
  from tf_add_inv[OF 5] have g4: "g4 = g3" and sm: "sm = Tensor (AddOp c b) s"
    using b c s' nk' by (auto simp: add_shape_def)
  have os: "op_scope g4 = op_scope g" using e1 e2 g3 g4 by (simp add: extends_def)
  show ?thesis using 6 s sm c b kt os ks nk'
    by (auto simp: tf_relu_def conv_out_def)
qed

lemma extends_mem: "extends g g' \<Longrightarrow> v \<in> set (collections g c) \<Longrightarrow> v \<in> set (collections g' c)"
  unfolding extends_def by (metis Un_iff set_append)

lemma fold_add_mem:
  "c \<in> set cs \<Longrightarrow> v \<in> set (collections (fold (\<lambda>c. add_to_collection c v) cs g) c)"
proof (induction cs arbitrary: g)
  case Nil then show ?case by simp
next
  case (Cons a cs)
  show ?case
  proof (cases "c = a")
    case True
    have "v \<in> set (collections (add_to_collection a v g) a)" by (simp add: add_to_collection_def)
    then show ?thesis using True add_to_collections_extends extends_mem by fastforce
  next
    case False then show ?thesis using Cons by simp
  qed
qed

lemma get_variable_mem:
  assumes "get_variable n shp ini tr cs g = (Inr w, g')" "c \<in> set cs"
  shows "\<lparr>var_name = scoped (var_scope g) n, var_shape = map the shp, var_init = ini,
          var_trainable = tr\<rparr> \<in> set (collections g' c)"
  using assms fold_add_mem[of c "remdups (cs @ [VARIABLES] @ (if tr then [TRAINABLE_VARIABLES] else []))"]
  by (auto simp: get_variable_def Let_def add_to_collections_def split: if_splits)

lemma batch_norm_inv:
  assumes "batch_norm x a g = (Inr y, g')" "center a" "scale a"
  shows "\<exists>dims c. get_shape x = Some dims \<and> dims \<noteq> [] \<and> last dims = Some c \<and> 0 \<le> c
           \<and> y = bn_out (var_scope g) x c a
           \<and> (\<forall>k \<in> set (variables_collections a).
                 bn_var (var_scope g) ''moving_mean'' c ZerosInit False \<in> set (collections g' k)
               \<and> bn_var (var_scope g) ''moving_variance'' c OnesInit False \<in> set (collections g' k))"
proof -
  from assms(1) obtain dims where dims: "get_shape x = Some dims" "dims \<noteq> []" "last dims \<noteq> None"
    by (cases "get_shape x") (auto simp: batch_norm_def lift_def split: if_splits)
  define gp where "gp = g\<lparr>var_scope := var_scope g @ [''BatchNorm''], op_scope := op_scope g @ [''BatchNorm'']\<rparr>"
  from assms dims obtain b g1 gm g2 mm g3 mv g4 gl where
    1: "get_variable ''beta'' [last dims] ZerosInit (trainable a) (variables_collections a) gp = (Inr b, g1)" and
    2: "get_variable ''gamma'' [last dims] OnesInit (trainable a) (variables_collections a) g1 = (Inr gm, g2)" and
    3: "get_variable ''moving_mean'' [last dims] ZerosInit False (variables_collections a) g2 = (Inr mm, g3)" and
    4: "get_variable ''moving_variance'' [last dims] OnesInit False (variables_collections a) g3 = (Inr mv, g4)" and
    5: "y = Tensor (BatchNormOp x (Some b) (Some gm) mm mv (is_training a) (decay a) (epsilon a)) (get_shape x)" and
    6: "g' = g4\<lparr>var_scope := var_scope g, op_scope := op_scope g\<rparr>"
    unfolding batch_norm_def gp_def
    by (auto elim!: variable_scopeE and_thenE dest!: ret_inv)
  have e1: "extends gp g1" using get_variable_extends[of gp] 1 by (metis snd_conv)
  have e2: "extends g1 g2" using get_variable_extends[of g1] 2 by (metis snd_conv)
  have e3: "extends g2 g3" using get_variable_extends[of g2] 3 by (metis snd_conv)
  have e4: "extends g3 g4" using get_variable_extends[of g3] 4 by (metis snd_conv)
  have vs: "var_scope g1 = var_scope g @ [''BatchNorm'']" "var_scope g2 = var_scope g @ [''BatchNorm'']"
    "var_scope g3 = var_scope g @ [''BatchNorm'']" "var_scope gp = var_scope g @ [''BatchNorm'']"
    using e1 e2 e3 by (simp_all add: extends_def gp_def)
  from get_variable_inv(2)[OF 1] dims obtain c where c: "last dims = Some c" "0 \<le> c" by auto
  have y: "y = bn_out (var_scope g) x c a"
    using 5 get_variable_inv(1)[OF 1] get_variable_inv(1)[OF 2] get_variable_inv(1)[OF 3]
      get_variable_inv(1)[OF 4] vs c by (simp add: bn_out_def)
  have m: "bn_var (var_scope g) ''moving_mean'' c ZerosInit False \<in> set (collections g' k)"
    "bn_var (var_scope g) ''moving_variance'' c OnesInit False \<in> set (collections g' k)"
    if "k \<in> set (variables_collections a)" for k
    using get_variable_mem[OF 3 that] get_variable_mem[OF 4 that] extends_mem[OF e4] vs c 6
    by (auto simp: bn_var_def)
  show ?thesis using dims c y m by blast
qed

lemma pad_shape_inv:
  assumes "pad_shape s [p0, p1, p2, p3] = Inr r" "py_index (case s of None \<Rightarrow> [] | Some ds \<Rightarrow> ds) 3 = Inr d"
  shows "\<exists>b h w. s = Some [b, h, w, d]"
proof -
  from assms obtain ds where ds: "s = Some ds" "length ds = 4" "ds ! 3 = d"
    by (auto simp: pad_shape_def py_index_def split: if_splits option.splits)
  from ds(2) obtain b h w c where "ds = [b, h, w, c]"
    by (auto simp: length_Suc_conv eval_nat_numeral)
  with ds show ?thesis by simp
qed

lemma eq_conv_layer_inv:
  assumes "eq_conv_layer x k n st it g = (Inr y, g')"
  shows "\<exists>b h w d pa s1 s2.
           get_shape x = Some [b, h, w, Some d]
         \<and> int_truediv (k - 1) 2 = Inr pa
         \<and> pad_shape (get_shape x) [(0, 0), (pa, pa), (pa, pa), (0, 0)] = Inr s1
         \<and> conv2d_shape s1 (Some [Some k, Some k, Some d, Some n]) st VALID = Inr s2
         \<and> y = eq_conv_out (var_scope g) (op_scope g) x k d n pa st it s1 s2
         \<and> bn_var (var_scope g @ [''eq_conv_layer'']) ''moving_mean'' n ZerosInit False
               \<in> set (collections g' REQUIRED_NON_TRAINABLES)
         \<and> bn_var (var_scope g @ [''eq_conv_layer'']) ''moving_variance'' n OnesInit False
               \<in> set (collections g' REQUIRED_NON_TRAINABLES)"
proof -
  define gp where "gp = g\<lparr>var_scope := var_scope g @ [''eq_conv_layer''], op_scope := op_scope g @ [''eq_conv_layer'']\<rparr>"
  from assms obtain depth pa xp g1 g2 c g3 g4 where
    1: "shape_index (get_shape x) 3 = Inr depth" and
    2: "int_truediv (k - 1) 2 = Inr pa" and
    3: "tf_pad x [(0, 0), (pa, pa), (pa, pa), (0, 0)] ''input_padded'' gp = (Inr xp, g1)" and
    4: "py_print xp g1 = (Inr (), g2)" and
    5: "conv_layer xp [Some k, Some k, depth, Some n] VALID st g2 = (Inr c, g3)" and
    6: "batch_norm c (eq_bn_args it) g3 = (Inr y, g4)" and
    7: "g' = g4\<lparr>var_scope := var_scope g, op_scope := op_scope g\<rparr>"
    unfolding eq_conv_layer_def gp_def Let_def eq_bn_args_def
    by (auto elim!: variable_scopeE and_thenE dest!: lift_inv)
  from tf_pad_inv[OF 3] obtain s1 where g1: "g1 = gp"
    and s1: "pad_shape (get_shape x) [(0, 0), (pa, pa), (pa, pa), (0, 0)] = Inr s1"
    and xp: "xp = Tensor (PadOp x [(0, 0), (pa, pa), (pa, pa), (0, 0)] (scoped (op_scope gp) ''input_padded'')) s1"
    by auto
  from 4 have g2: "g2 = gp\<lparr>stdout := stdout gp @ [xp]\<rparr>" using g1 by (simp add: py_print_def)
  from conv_layer_inv[OF 5] obtain s2 where
    s2: "conv2d_shape (get_shape xp) (Some [Some k, Some k, depth, Some n]) st VALID = Inr s2"
    and c: "c = conv_out (var_scope g2) (op_scope g2) xp [Some k, Some k, depth, Some n] VALID st s2"
    by auto
  from conv2d_shape_inv[OF s2] obtain d where d: "depth = Some d" by auto
  have shp: "\<exists>b h w. get_shape x = Some [b, h, w, Some d]"
  proof (cases "get_shape x")
    case None then show ?thesis using 1 d by (simp add: shape_index_def)
  next
    case (Some ds)
    then show ?thesis using pad_shape_inv[OF s1, of depth] 1 d by (simp add: shape_index_def)
  qed
  have e3: "extends g2 g3" using conv_layer_extends[of g2 xp] 5 by (metis snd_conv)
  have vs: "var_scope g3 = var_scope g @ [''eq_conv_layer'']" "var_scope g2 = var_scope g @ [''eq_conv_layer'']"
    "op_scope g2 = op_scope g @ [''eq_conv_layer'']" "op_scope gp = op_scope g @ [''eq_conv_layer'']"
    using e3 g2 by (simp_all add: extends_def gp_def)
  from batch_norm_inv[OF 6] obtain dims cc where
    bn: "get_shape c = Some dims" "dims \<noteq> []" "last dims = Some cc"
      "y = bn_out (var_scope g3) c cc (eq_bn_args it)"
      "bn_var (var_scope g3) ''moving_mean'' cc ZerosInit False \<in> set (collections g4 REQUIRED_NON_TRAINABLES)"
      "bn_var (var_scope g3) ''moving_variance'' cc OnesInit False \<in> set (collections g4 REQUIRED_NON_TRAINABLES)"
    by (auto simp: eq_bn_args_def)
  have cc: "cc = n" using bn(1,3) c conv2d_shape_inv[OF s2] by (auto simp: conv_out_def)
  have y: "y = eq_conv_out (var_scope g) (op_scope g) x k d n pa st it s1 s2"
    using bn(4) c xp vs d cc by (simp add: eq_conv_out_def)
  show ?thesis using shp 2 s1 s2 xp d y bn(5,6) cc vs 7 by auto
qed

lemma py_str_simps: "py_str (2 ^ 7) = ''128''" "py_str (2 ^ 7 * 2) = ''256''" "py_str (2 ^ 7 * 2 * 2) = ''512''"
  by (simp_all add: py_str_def digits.simps)

lemma eq_conv_layer_step:
  assumes "eq_conv_layer x KERNEL_SIDE n [1, 2, 2, 1] it g = (Inr y, g')"
  shows "eq_step (var_scope g) (op_scope g) it n x y"
  using eq_conv_layer_inv[OF assms]
  by (auto simp: eq_step_def KERNEL_SIDE_def int_truediv_def)

lemma conv_layer_step:
  assumes "conv_layer x ks VALID [1, 1, 1, 1] g = (Inr y, g')"
  shows "conv_step (var_scope g) (op_scope g) ks x y"
  using conv_layer_inv[OF assms] by (auto simp: conv_step_def)

lemma fc_block:
  assumes "conv_layer x ks VALID [1, 1, 1, 1] g = (Inr f, g1)"
    and "(if \<not> tp then ret f else tf_dropout f kp ''dropout'') g1 = (Inr y, g2)"
  shows "conv_step (var_scope g) (op_scope g) ks x f \<and> drop_step (op_scope g) tp kp f y"
proof -
  have "extends g g1" using conv_layer_extends[of g x ks VALID "[1, 1, 1, 1]"] assms(1) by simp
  then have "op_scope g1 = op_scope g" by (simp add: extends_def)
  then show ?thesis using assms(2) conv_layer_step[OF assms(1)]
    by (auto simp: drop_step_def ret_def tf_dropout_def split: if_splits)
qed

lemma get_inv:
  assumes "get nc im kp ita tp g = (Inr out, g')"
  shows "\<exists>c1 c2 c3 c4 c5 c6 f1 d1 f2 d2.
           eq_step (var_scope g @ [''128'', ''conv1'']) (op_scope g @ [''128'', ''conv1''])
             (if tp then ita else PyBool False) 128 im c1
         \<and> eq_step (var_scope g @ [''128'', ''conv2'']) (op_scope g @ [''128'', ''conv2''])
             (if tp then ita else PyBool False) 128 c1 c2
         \<and> eq_step (var_scope g @ [''256'', ''conv3'']) (op_scope g @ [''256'', ''conv3''])
             (if tp then ita else PyBool False) 256 c2 c3
         \<and> eq_step (var_scope g @ [''256'', ''conv4'']) (op_scope g @ [''256'', ''conv4''])
             (if tp then ita else PyBool False) 256 c3 c4
         \<and> eq_step (var_scope g @ [''512'', ''conv5'']) (op_scope g @ [''512'', ''conv5''])
             (if tp then ita else PyBool False) 512 c4 c5
         \<and> eq_step (var_scope g @ [''512'', ''conv6'']) (op_scope g @ [''512'', ''conv6''])
             (if tp then ita else PyBool False) 512 c5 c6
         \<and> conv_step (var_scope g @ [''fc1'']) (op_scope g @ [''fc1''])
             [Some 3, Some 3, Some 512, Some 2048] c6 f1
         \<and> drop_step (op_scope g @ [''fc1'']) tp kp f1 d1
         \<and> conv_step (var_scope g @ [''fc2'']) (op_scope g @ [''fc2''])
             [Some 1, Some 1, Some 2048, Some 2048] d1 f2
         \<and> drop_step (op_scope g @ [''fc2'']) tp kp f2 d2
         \<and> conv_step (var_scope g @ [''softmax_linear'']) (op_scope g @ [''softmax_linear''])
             [Some 1, Some 1, Some 2048, Some nc] d2 out"
  using assms unfolding get_def Let_def py_str_simps
  apply (elim and_thenE variable_scopeE)
  apply (clarsimp simp: py_print_def ret_def)
  apply (drule (1) fc_block)+
  apply (drule eq_conv_layer_step conv_layer_step)+
  apply (cases tp; simp add: LAST_KERNEL_SIDE_def KERNEL_SIDE_def FC_NEURONS_def; blast)
  done

lemma and_then_eq: "m g = (Inr x, g1) \<Longrightarrow> and_then m f g = f x g1"
  by (simp add: and_then_def)

lemma get_variable_ok:
  assumes "known shp"
  shows "\<exists>w g'. get_variable n shp ini tr cs g = (Inr w, g')"
  using assms by (auto simp: get_variable_def known_def Let_def)

lemma weight_ok:
  assumes "known shp"
  shows "\<exists>w g'. weight shp n ini g = (Inr w, g')"
proof -
  from get_variable_ok[OF assms] obtain w g1 where "get_variable n shp ini True [] g = (Inr w, g1)"
    by blast
  then show ?thesis
    by (simp add: weight_def and_then_eq log_histogram_def name_scope_def histogram_summary_def
        and_then_def ret_def)
qed

lemma bias_ok:
  assumes "known shp"
  shows "\<exists>w g'. bias shp n v g = (Inr w, g')"
proof -
  from get_variable_ok[OF assms] obtain w g1 where
    "get_variable n shp (ConstantInit v) True [] g = (Inr w, g1)"
    by blast
  then show ?thesis
    by (simp add: bias_def and_then_eq log_histogram_def name_scope_def histogram_summary_def
        and_then_def ret_def)
qed

lemma kernels_ok:
  assumes "known [Some a, Some b, Some c, Some d]"
  shows "\<exists>w g'. kernels [Some a, Some b, Some c, Some d] n ini g = (Inr w, g')"
proof -
  from weight_ok[OF assms] obtain w g1 where w: "weight [Some a, Some b, Some c, Some d] n ini g = (Inr w, g1)"
    by blast
  have sh: "get_shape w = Some [Some a, Some b, Some c, Some d]"
    using weight_inv(1)[OF w] by simp
  show ?thesis using w
    by (simp add: kernels_def and_then_def lift_def py_index_def name_scope_def
        int_truediv_def tf_reshape_def sh num_elements_def image_summary_def ret_def mult.commute
        mult.left_commute)
qed

lemma int_truediv_nonneg: "0 \<le> a \<Longrightarrow> 0 < b \<Longrightarrow> int_truediv a b = Inr (a div b)"
  by (cases "a = 0") (auto simp: int_truediv_def sgn_if)

lemma conv_layer_ok:
  assumes "known [Some kh, Some kw, Some kc, Some kn]"
    and "conv2d_shape (get_shape x) (Some [Some kh, Some kw, Some kc, Some kn]) st p = Inr s"
  shows "\<exists>y g'. conv_layer x [Some kh, Some kw, Some kc, Some kn] p st g = (Inr y, g')
           \<and> get_shape y = s"
proof -
  define ks where "ks = [Some kh, Some kw, Some kc, Some kn]"
  from kernels_ok[OF assms(1)] obtain kt g1 where
    1: "kernels ks ''kernels'' XavierConv2d g = (Inr kt, g1)" unfolding ks_def by blast
  have "known [Some kn]" using assms(1) by (simp add: known_def)
  from bias_ok[OF this] obtain b g2 where
    2: "bias [Some kn] ''bias'' (Decimal 0 0) g1 = (Inr b, g2)" by blast
  have kt: "get_shape kt = Some ks" using kernels_inv(1)[OF 1] by simp
  have b: "get_shape b = Some [Some kn]" using bias_inv[OF 2] by simp
  from conv2d_shape_inv[OF assms(2)] obtain bb oh ow where s: "s = Some [bb, oh, ow, Some kn]"
    by auto
  have 3: "tf_conv2d x kt st p g2 = (Inr (Tensor (Conv2DOp x kt st p) s), g2)"
    using assms(2) kt by (simp add: tf_conv2d_def ks_def)
  have 4: "tf_add (Tensor (Conv2DOp x kt st p) s) b g2
             = (Inr (Tensor (AddOp (Tensor (Conv2DOp x kt st p) s) b) s), g2)"
    using b s by (simp add: tf_add_def add_shape_def)
  have "conv_layer x ks p st g =
          tf_relu (Tensor (AddOp (Tensor (Conv2DOp x kt st p) s) b) s) ''out'' g2"
    unfolding conv_layer_def using 1 2 3 4
    by (simp add: and_then_def lift_def py_index_def ks_def)
  then show ?thesis unfolding ks_def by (simp add: tf_relu_def)
qed

lemma batch_norm_ok:
  assumes "get_shape x = Some dims" "dims \<noteq> []" "last dims = Some c" "0 \<le> c"
  shows "\<exists>y g'. batch_norm x a g = (Inr y, g') \<and> get_shape y = get_shape x"
  using assms
  by (simp add: batch_norm_def variable_scope_def and_then_def get_variable_def ret_def Let_def
      split: prod.splits)

lemma eq_conv_layer_ok:
  assumes "get_shape x = Some [b, Some h, Some w, Some d]"
    and "odd k" "0 < k" "k \<le> 2 * INT32_MAX + 1" "1 \<le> h" "1 \<le> w" "0 \<le> d" "0 \<le> n" "1 \<le> s"
  shows "\<exists>y g'. eq_conv_layer x k n [1, s, s, 1] it g = (Inr y, g')
           \<and> get_shape y = Some [b, Some ((h - 1 + s) div s), Some ((w - 1 + s) div s), Some n]"
proof -
  define pa where "pa = (k - 1) div 2"
  have pa: "int_truediv (k - 1) 2 = Inr pa" "0 \<le> pa" "pa \<le> INT32_MAX" "pa + pa = k - 1"
    using assms(2-4) by (auto simp: int_truediv_nonneg pa_def elim!: oddE)
  define gp where "gp = g\<lparr>var_scope := var_scope g @ [''eq_conv_layer''], op_scope := op_scope g @ [''eq_conv_layer'']\<rparr>"
  define s1 where "s1 = Some [b, Some (h + k - 1), Some (w + k - 1), Some d]"
  define xp where "xp = Tensor (PadOp x [(0, 0), (pa, pa), (pa, pa), (0, 0)] (scoped (op_scope gp) ''input_padded'')) s1"
  define s2 where "s2 = Some [b, Some ((h - 1 + s) div s), Some ((w - 1 + s) div s), Some n]"
  have 1: "tf_pad x [(0, 0), (pa, pa), (pa, pa), (0, 0)] ''input_padded'' gp = (Inr xp, gp)"
    using assms(1) pa
    by (cases b) (auto simp: tf_pad_def pad_shape_def xp_def s1_def algebra_simps)
  have 2: "conv2d_shape (get_shape xp) (Some [Some k, Some k, Some d, Some n]) [1, s, s, 1] VALID = Inr s2"
    using assms by (simp add: xp_def s1_def s2_def conv2d_shape_def conv_out_size_def)
  have kn: "known [Some k, Some k, Some d, Some n]" using assms by (simp add: known_def)
  from conv_layer_ok[OF kn 2] obtain c g3 where
    3: "conv_layer xp [Some k, Some k, Some d, Some n] VALID [1, s, s, 1] (gp\<lparr>stdout := stdout gp @ [xp]\<rparr>) = (Inr c, g3)"
    and c: "get_shape c = s2" by blast
  from batch_norm_ok[of c _ n "eq_bn_args it" g3] c assms obtain y g4 where
    4: "batch_norm c (eq_bn_args it) g3 = (Inr y, g4)" and y: "get_shape y = s2"
    by (auto simp: s2_def)
  have "eq_conv_layer x k n [1, s, s, 1] it g = (Inr y, g4\<lparr>var_scope := var_scope g, op_scope := op_scope g\<rparr>)"
    unfolding eq_conv_layer_def using pa(1) 1 3 4 assms(1)
    by (simp add: variable_scope_def and_then_def lift_def shape_index_def py_index_def
        py_print_def gp_def eq_bn_args_def)
  then show ?thesis using y by (simp add: s2_def)
qed

lemma between_trans: "between x y f A \<Longrightarrow> between y z f B \<Longrightarrow> between x z f (A @ B)"
  unfolding between_def by (metis append.assoc map_append rev_append)

lemma between_applied:
  assumes "between x y f ds"
  shows "map f (applied x y) = ds" and "path y = rev (applied x y) @ path x"
  using assms by (auto simp: between_def applied_def)

lemma conv_out_between:
  "between x (conv_out vs os x ks p st s) describe (conv_block ks p st)"
  "between x (conv_out vs os x ks p st s) get_shape [s, s, s]"
  by (simp_all add: between_def conv_out_def describe_def conv_block_def)

lemma eq_conv_out_between:
  "between x (eq_conv_out vs os x k d n pa st it s1 s2) describe
     [PadL [(0, 0), (pa, pa), (pa, pa), (0, 0)],
      ConvL [Some k, Some k, Some d, Some n] st VALID, AddL, ReluL, BatchNormL]"
  "between x (eq_conv_out vs os x k d n pa st it s1 s2) get_shape [s1, s2, s2, s2, s2]"
  by (simp_all add: between_def eq_conv_out_def conv_out_def bn_out_def describe_def)

lemma eq_conv_layer_shapes:
  assumes "eq_conv_layer x k n [1, s, s, 1] it g = (Inr y, g')" and "odd k"
    and "get_shape x = Some [b, Some h, Some w, Some d]"
  shows "0 < k" 
    and "between x y describe (eq_conv_block k d n [1, s, s, 1])"
    and "between x y get_shape
           [Some [b, Some (h + k - 1), Some (w + k - 1), Some d],
            Some [b, Some ((h - 1 + s) div s), Some ((w - 1 + s) div s), Some n],
            Some [b, Some ((h - 1 + s) div s), Some ((w - 1 + s) div s), Some n],
            Some [b, Some ((h - 1 + s) div s), Some ((w - 1 + s) div s), Some n],
            Some [b, Some ((h - 1 + s) div s), Some ((w - 1 + s) div s), Some n]]"
    and "get_shape y = Some [b, Some ((h - 1 + s) div s), Some ((w - 1 + s) div s), Some n]"
proof -
  from eq_conv_layer_inv[OF assms(1)] assms(3) obtain pa s1 s2 where
    pa: "int_truediv (k - 1) 2 = Inr pa" and
    s1: "pad_shape (Some [b, Some h, Some w, Some d]) [(0, 0), (pa, pa), (pa, pa), (0, 0)] = Inr s1" and
    s2: "conv2d_shape s1 (Some [Some k, Some k, Some d, Some n]) [1, s, s, 1] VALID = Inr s2" and
    y: "y = eq_conv_out (var_scope g) (op_scope g) x k d n pa [1, s, s, 1] it s1 s2"
    by auto
  from s1 have pa0: "0 \<le> pa" by (auto simp: pad_shape_def split: if_splits)
  show k: "0 < k"
  proof (rule ccontr)
    assume "\<not> 0 < k"
    then have "k - 1 < 0" "\<bar>k - 1\<bar> div 2 > 0" using assms(2) by (auto elim!: oddE)
    then have "pa < 0" using pa by (auto simp: int_truediv_def sgn_if)
    then show False using pa0 by simp
  qed
  then have pa': "pa = (k - 1) div 2" "pa + pa = k - 1"
    using pa assms(2) by (auto simp: int_truediv_nonneg elim!: oddE)
  have s1': "s1 = Some [b, Some (h + k - 1), Some (w + k - 1), Some d]"
    using s1 pa'(2) by (cases b) (auto simp: pad_shape_def split: if_splits)
  have s2': "s2 = Some [b, Some ((h - 1 + s) div s), Some ((w - 1 + s) div s), Some n]"
    using s2 unfolding s1' by (auto simp: conv2d_shape_def conv_out_size_def split: if_splits)
  show "between x y describe (eq_conv_block k d n [1, s, s, 1])"
    using eq_conv_out_between(1)[of x "var_scope g" "op_scope g" k d n pa "[1, s, s, 1]" it s1 s2]
    by (simp add: y eq_conv_block_def pa'(1))
  show "between x y get_shape
           [Some [b, Some (h + k - 1), Some (w + k - 1), Some d],
            Some [b, Some ((h - 1 + s) div s), Some ((w - 1 + s) div s), Some n],
            Some [b, Some ((h - 1 + s) div s), Some ((w - 1 + s) div s), Some n],
            Some [b, Some ((h - 1 + s) div s), Some ((w - 1 + s) div s), Some n],
            Some [b, Some ((h - 1 + s) div s), Some ((w - 1 + s) div s), Some n]]"
    using eq_conv_out_between(2)[of x "var_scope g" "op_scope g" k d n pa "[1, s, s, 1]" it s1 s2]
    by (simp add: y s1' s2')
  show "get_shape y = Some [b, Some ((h - 1 + s) div s), Some ((w - 1 + s) div s), Some n]"
    by (simp add: y s2' eq_conv_out_def bn_out_def conv_out_def)
qed

lemma and_then_keeps:
  assumes "\<And>g. keeps c g (snd (m g))" "\<And>x g. keeps c g (snd (f x g))"
  shows "keeps c g (snd (and_then m f g))"
proof (cases "m g")
  case (Pair r g1)
  have 1: "keeps c g g1" using assms(1)[of g] Pair by simp
  show ?thesis
  proof (cases r)
    case (Inl e) then show ?thesis using Pair 1 by (simp add: and_then_def)
  next
    case (Inr x)
    then show ?thesis using Pair 1 assms(2)[of g1 x] by (auto simp: and_then_def keeps_def)
  qed
qed

lemma variable_scope_keeps:
  assumes "\<And>g. keeps c g (snd (body g))"
  shows "keeps c g (snd (variable_scope s body g))"
  using assms[of "g\<lparr>var_scope := var_scope g @ [s], op_scope := op_scope g @ [s]\<rparr>"]
  by (auto simp: variable_scope_def keeps_def split: prod.splits)

lemma name_scope_keeps:
  assumes "\<And>g. keeps c g (snd (body g))"
  shows "keeps c g (snd (name_scope s body g))"
  using assms[of "g\<lparr>op_scope := op_scope g @ [s]\<rparr>"]
  by (auto simp: name_scope_def keeps_def split: prod.splits)

lemma fold_add_collections:
  "distinct cs \<Longrightarrow> collections (fold (\<lambda>c. add_to_collection c v) cs g) c
     = (if c \<in> set cs then collections g c @ [v] else collections g c)"
  by (induction cs arbitrary: g) (auto simp: add_to_collection_def)

lemma get_variable_keeps:
  "c \<notin> set cs \<Longrightarrow> c \<noteq> VARIABLES \<Longrightarrow> c \<noteq> TRAINABLE_VARIABLES
     \<Longrightarrow> keeps c g (snd (get_variable n shp ini tr cs g))"
  by (simp add: get_variable_def Let_def add_to_collections_def fold_add_collections keeps_def)

lemma get_variable_append:
  assumes "get_variable n shp ini tr cs g = (Inr w, g')" "c \<in> set cs"
  shows "collections g' c = collections g c @
           [\<lparr>var_name = scoped (var_scope g) n, var_shape = map the shp, var_init = ini,
             var_trainable = tr\<rparr>]"
  using assms
  by (auto simp: get_variable_def Let_def add_to_collections_def fold_add_collections
      split: if_splits)

lemma prim_keeps:
  "keeps c g (snd (ret x g))" "keeps c g (snd (lift r g))" "keeps c g (snd (py_print t g))"
  "keeps c g (snd (tf_pad x1 ps n g))" "keeps c g (snd (tf_conv2d x2 k st p g))"
  "keeps c g (snd (tf_add x3 b g))" "keeps c g (snd (tf_relu x4 n g))"
  "keeps c g (snd (tf_dropout x5 kp n g))" "keeps c g (snd (tf_reshape x6 ds g))"
  "keeps c g (snd (histogram_summary tag t g))" "keeps c g (snd (image_summary tag t mi g))"
  by (auto simp: keeps_def ret_def lift_def py_print_def tf_pad_def tf_conv2d_def tf_add_def tf_relu_def
      tf_dropout_def tf_reshape_def histogram_summary_def image_summary_def split: sum.splits)

lemma if_keeps:
  "(b \<Longrightarrow> keeps c g (snd (x g))) \<Longrightarrow> (\<not> b \<Longrightarrow> keeps c g (snd (y g)))
    \<Longrightarrow> keeps c g (snd ((if b then x else y) g))"
  by simp

lemmas keeps_intros = and_then_keeps variable_scope_keeps name_scope_keeps prim_keeps if_keeps

lemma req_neq: "REQUIRED_NON_TRAINABLES \<noteq> VARIABLES" "REQUIRED_NON_TRAINABLES \<noteq> TRAINABLE_VARIABLES"
  by (simp_all add: REQUIRED_NON_TRAINABLES_def VARIABLES_def TRAINABLE_VARIABLES_def)

lemma conv_layer_keeps: "keeps REQUIRED_NON_TRAINABLES g (snd (conv_layer x ks p st g))"
  unfolding conv_layer_def kernels_def weight_def bias_def log_histogram_def
  by (intro keeps_intros get_variable_keeps req_neq) simp_all

lemma conv_layer_req:
  assumes "conv_layer x ks p st g = (Inr y, g')"
  shows "collections g' REQUIRED_NON_TRAINABLES = collections g REQUIRED_NON_TRAINABLES"
  using conv_layer_keeps[of g x ks p st] assms by (simp add: keeps_def)

lemma batch_norm_req:
  assumes "batch_norm x (eq_bn_args it) g = (Inr y, g')" "get_shape x = Some [b, h, w, Some n]"
  shows "collections g' REQUIRED_NON_TRAINABLES
           = collections g REQUIRED_NON_TRAINABLES @ bn_vars (var_scope g) n"
proof -
  define gp where "gp = g\<lparr>var_scope := var_scope g @ [''BatchNorm''], op_scope := op_scope g @ [''BatchNorm'']\<rparr>"
  from assms obtain bt g1 gm g2 mm g3 mv g4 where
    1: "get_variable ''beta'' [Some n] ZerosInit True [REQUIRED_NON_TRAINABLES] gp = (Inr bt, g1)" and
    2: "get_variable ''gamma'' [Some n] OnesInit True [REQUIRED_NON_TRAINABLES] g1 = (Inr gm, g2)" and
    3: "get_variable ''moving_mean'' [Some n] ZerosInit False [REQUIRED_NON_TRAINABLES] g2 = (Inr mm, g3)" and
    4: "get_variable ''moving_variance'' [Some n] OnesInit False [REQUIRED_NON_TRAINABLES] g3 = (Inr mv, g4)" and
    6: "g' = g4\<lparr>var_scope := var_scope g, op_scope := op_scope g\<rparr>"
    unfolding batch_norm_def gp_def eq_bn_args_def
    by (auto elim!: variable_scopeE and_thenE dest!: ret_inv)
  have e1: "extends gp g1" using get_variable_extends[of gp] 1 by (metis snd_conv)
  have e2: "extends g1 g2" using get_variable_extends[of g1] 2 by (metis snd_conv)
  have e3: "extends g2 g3" using get_variable_extends[of g2] 3 by (metis snd_conv)
  have vs: "var_scope g1 = var_scope g @ [''BatchNorm'']" "var_scope g2 = var_scope g @ [''BatchNorm'']"
    "var_scope g3 = var_scope g @ [''BatchNorm'']" "var_scope gp = var_scope g @ [''BatchNorm'']"
    using e1 e2 e3 by (simp_all add: extends_def gp_def)
  show ?thesis
    using get_variable_append[OF 1, of REQUIRED_NON_TRAINABLES]
      get_variable_append[OF 2, of REQUIRED_NON_TRAINABLES]
      get_variable_append[OF 3, of REQUIRED_NON_TRAINABLES]
      get_variable_append[OF 4, of REQUIRED_NON_TRAINABLES] vs 6
    by (simp add: bn_vars_def bn_var_def gp_def)
qed

lemma eq_conv_layer_req:
  assumes "eq_conv_layer x k n st it g = (Inr y, g')"
  shows "collections g' REQUIRED_NON_TRAINABLES
           = collections g REQUIRED_NON_TRAINABLES @ bn_vars (var_scope g @ [''eq_conv_layer'']) n"
proof -
  define gp where "gp = g\<lparr>var_scope := var_scope g @ [''eq_conv_layer''], op_scope := op_scope g @ [''eq_conv_layer'']\<rparr>"
  from assms obtain depth pa xp g1 g2 c g3 g4 where
    3: "tf_pad x [(0, 0), (pa, pa), (pa, pa), (0, 0)] ''input_padded'' gp = (Inr xp, g1)" and
    4: "py_print xp g1 = (Inr (), g2)" and
    5: "conv_layer xp [Some k, Some k, depth, Some n] VALID st g2 = (Inr c, g3)" and
    6: "batch_norm c (eq_bn_args it) g3 = (Inr y, g4)" and
    7: "g' = g4\<lparr>var_scope := var_scope g, op_scope := op_scope g\<rparr>"
    unfolding eq_conv_layer_def gp_def Let_def eq_bn_args_def
    by (auto elim!: variable_scopeE and_thenE dest!: lift_inv)
  have g2: "collections g2 = collections g" "var_scope g2 = var_scope g @ [''eq_conv_layer'']"
    using tf_pad_inv[OF 3] 4 by (auto simp: py_print_def gp_def)
  have k3: "collections g3 REQUIRED_NON_TRAINABLES = collections g REQUIRED_NON_TRAINABLES"
    using conv_layer_req[OF 5] g2 by simp
  have e3: "extends g2 g3" using conv_layer_extends[of g2 xp] 5 by (metis snd_conv)
  from conv_layer_inv[OF 5] obtain s where
    s: "conv2d_shape (get_shape xp) (Some [Some k, Some k, depth, Some n]) st VALID = Inr s"
    and c: "get_shape c = s" by (auto simp: conv_out_def)
  from conv2d_shape_inv[OF s] c obtain b h w where "get_shape c = Some [b, h, w, Some n]" by auto
  from batch_norm_req[OF 6 this] show ?thesis using k3 e3 g2 7 by (simp add: extends_def)
qed

lemma dropout_reg:
  assumes "(if \<not> tp then ret f else tf_dropout f kp ''dropout'') g1 = (Inr y, g2)"
  shows "g2 = g1"
  using assms by (auto simp: ret_def tf_dropout_def split: if_splits)

lemma get_req:
  assumes "get nc im kp ita tp g = (Inr out, g')"
  shows "collections g' REQUIRED_NON_TRAINABLES = collections g REQUIRED_NON_TRAINABLES
           @ bn_vars (var_scope g @ [''128'', ''conv1'', ''eq_conv_layer'']) 128
           @ bn_vars (var_scope g @ [''128'', ''conv2'', ''eq_conv_layer'']) 128
           @ bn_vars (var_scope g @ [''256'', ''conv3'', ''eq_conv_layer'']) 256
           @ bn_vars (var_scope g @ [''256'', ''conv4'', ''eq_conv_layer'']) 256
           @ bn_vars (var_scope g @ [''512'', ''conv5'', ''eq_conv_layer'']) 512
           @ bn_vars (var_scope g @ [''512'', ''conv6'', ''eq_conv_layer'']) 512"
  using assms unfolding get_def Let_def py_str_simps
  apply (elim and_thenE variable_scopeE)
  apply (clarsimp simp: py_print_def ret_def)
  apply (drule dropout_reg)+
  apply (drule eq_conv_layer_req conv_layer_req)+
  apply simp
  done

lemma post_and_then:
  assumes "post m P" "\<And>x. P x \<Longrightarrow> post (f x) Q"
  shows "post (and_then m f) Q"
  unfolding post_def
proof
  fix g
  from assms(1) obtain x g1 where 1: "m g = (Inr x, g1)" "P x" unfolding post_def by blast
  from assms(2)[OF 1(2)] obtain y g2 where "f x g1 = (Inr y, g2)" "Q y" unfolding post_def by blast
  then show "\<exists>y g'. and_then m f g = (Inr y, g') \<and> Q y" using 1 by (simp add: and_then_def)
qed

lemma post_variable_scope: "post b Q \<Longrightarrow> post (variable_scope s b) Q"
  unfolding post_def variable_scope_def
  by (metis (mono_tags, lifting) case_prod_conv)

lemma post_ret: "Q x \<Longrightarrow> post (ret x) Q"
  by (simp add: post_def ret_def)

lemma post_print: "Q () \<Longrightarrow> post (py_print t) Q"
  by (simp add: post_def py_print_def)

lemma post_print_then: "post (f ()) Q \<Longrightarrow> post (and_then (py_print t) f) Q"
  by (rule post_and_then[where P = "\<lambda>_. True"]) (simp_all add: post_print)

lemma post_dropout:
  "post (if tp = False then ret x else tf_dropout x kp ''dropout'') (\<lambda>y. get_shape y = get_shape x)"
  by (simp add: post_def ret_def tf_dropout_def)

lemma post_weaken: "post m P \<Longrightarrow> (\<And>x. P x \<Longrightarrow> Q x) \<Longrightarrow> post m Q"
  unfolding post_def by blast

lemma halved_step: "0 < m \<Longrightarrow> halved ((h + (m - 1)) div m) = (h + (2 * m - 1)) div (2 * m)"
proof -
  assume m: "0 < m"
  have "(h + (m - 1)) div m + 1 = (h + (2 * m - 1)) div m"
    using m div_add_self2[of m "h + (m - 1)"] by (simp add: algebra_simps)
  then have "halved ((h + (m - 1)) div m) = (h + (2 * m - 1)) div m div 2"
    by (simp add: halved_def)
  also have "\<dots> = (h + (2 * m - 1)) div (m * 2)"
    using m by (simp add: zdiv_zmult2_eq)
  finally show ?thesis by (simp add: mult.commute)
qed

lemma halved6: "halved (halved (halved (halved (halved (halved h))))) = (h + 63) div 64"
  using halved_step[of 1 h] halved_step[of 2 h] halved_step[of 4 h] halved_step[of 8 h]
    halved_step[of 16 h] halved_step[of 32 h] by simp

lemma halved_pos: "1 \<le> n \<Longrightarrow> 1 \<le> halved n"
  unfolding halved_def by linarith

lemma eq_conv_layer_post:
  assumes "get_shape x = Some [b, Some h, Some w, Some d]" "1 \<le> h" "1 \<le> w" "0 \<le> d" "0 \<le> n"
  shows "post (eq_conv_layer x 3 n [1, 2, 2, 1] it)
           (\<lambda>y. get_shape y = Some [b, Some (halved h), Some (halved w), Some n])"
  unfolding post_def
proof
  fix g
  have "get_shape y = Some [b, Some (halved h), Some (halved w), Some n]"
    if "get_shape y = Some [b, Some ((h - 1 + 2) div 2), Some ((w - 1 + 2) div 2), Some n]" for y
    using that by (simp add: halved_def add.commute)
  then show "\<exists>y g'. eq_conv_layer x 3 n [1, 2, 2, 1] it g = (Inr y, g')
              \<and> get_shape y = Some [b, Some (halved h), Some (halved w), Some n]"
    using eq_conv_layer_ok[of x b h w d 3 n 2 it g] assms
    by (auto simp: INT32_MAX_def)
qed

lemma conv_layer_post:
  assumes "get_shape x = Some [b, Some h, Some w, Some c]" "0 \<le> kh" "0 \<le> kw" "0 \<le> c" "0 \<le> kn"
    "kh \<le> h" "kw \<le> w"
  shows "post (conv_layer x [Some kh, Some kw, Some c, Some kn] VALID [1, 1, 1, 1])
           (\<lambda>y. get_shape y = Some [b, Some (h - kh + 1), Some (w - kw + 1), Some kn])"
  unfolding post_def
proof
  fix g
  have k: "known [Some kh, Some kw, Some c, Some kn]" using assms by (simp add: known_def)
  have s: "conv2d_shape (get_shape x) (Some [Some kh, Some kw, Some c, Some kn]) [1, 1, 1, 1] VALID
             = Inr (Some [b, Some (h - kh + 1), Some (w - kw + 1), Some kn])"
    using assms by (simp add: conv2d_shape_def conv_out_size_def)
  from conv_layer_ok[OF k s]
  show "\<exists>y g'. conv_layer x [Some kh, Some kw, Some c, Some kn] VALID [1, 1, 1, 1] g = (Inr y, g')
              \<and> get_shape y = Some [b, Some (h - kh + 1), Some (w - kw + 1), Some kn]" by blast
qed

lemma nk_simps: "(2::int) ^ 7 = 128" "(128::int) * 2 = 256" "(256::int) * 2 = 512"
  by simp_all

lemma py_str_num: "py_str 128 = ''128''" "py_str 256 = ''256''" "py_str 512 = ''512''"
  by (simp_all add: py_str_def digits.simps)

lemma get_post:
  assumes "get_shape im = Some [b, Some h, Some w, Some d]" "129 \<le> h" "129 \<le> w" "0 \<le> d" "0 \<le> nc"
  shows "post (get nc im kp ita tp)
           (\<lambda>out. get_shape out = Some [b, Some ((h + 63) div 64 - 2), Some ((w + 63) div 64 - 2), Some nc])"
proof -
  define h1 where "h1 = halved h" define w1 where "w1 = halved w"
  define h2 where "h2 = halved h1" define w2 where "w2 = halved w1"
  define h3 where "h3 = halved h2" define w3 where "w3 = halved w2"
  define h4 where "h4 = halved h3" define w4 where "w4 = halved w3"
  define h5 where "h5 = halved h4" define w5 where "w5 = halved w4"
  define h6 where "h6 = halved h5" define w6 where "w6 = halved w5"
  note defs = h1_def h2_def h3_def h4_def h5_def h6_def w1_def w2_def w3_def w4_def w5_def w6_def
  have pos: "1 \<le> h" "1 \<le> w" "1 \<le> h1" "1 \<le> w1" "1 \<le> h2" "1 \<le> w2" "1 \<le> h3" "1 \<le> w3"  "1 \<le> h4" "1 \<le> w4"
    "1 \<le> h5" "1 \<le> w5"
    using assms(2,3) by (auto simp: defs intro!: halved_pos)
  have h6: "h6 = (h + 63) div 64" "w6 = (w + 63) div 64" by (simp_all add: defs halved6)
  have "(129 + 63) div 64 \<le> (h + 63) div 64" "(129 + 63) div 64 \<le> (w + 63) div 64"
    using assms(2,3) by (intro zdiv_mono1; simp)+
  then have big: "3 \<le> h6" "3 \<le> w6" using h6 by simp_all
  show ?thesis
    unfolding get_def Let_def nk_simps py_str_num LAST_KERNEL_SIDE_def KERNEL_SIDE_def FC_NEURONS_def
    apply (rule post_print_then)
    apply (rule post_and_then[where P = "\<lambda>y. get_shape y = Some [b, Some h2, Some w2, Some 128]"])
     apply (rule post_variable_scope)
     apply (rule post_and_then[where P = "\<lambda>y. get_shape y = Some [b, Some h1, Some w1, Some 128]"])
      apply (rule post_variable_scope)
      apply (unfold h1_def w1_def, rule eq_conv_layer_post[OF assms(1) pos(1,2) assms(4)], simp)[1]
     apply (rule post_print_then)
     apply (rule post_and_then[where P = "\<lambda>y. get_shape y = Some [b, Some h2, Some w2, Some 128]"])
      apply (rule post_variable_scope)
      apply (unfold h2_def w2_def, rule eq_conv_layer_post, assumption, (simp add: pos)+)[1]
     apply (rule post_print_then)
     apply (rule post_ret, assumption)
    apply (rule post_and_then[where P = "\<lambda>y. get_shape y = Some [b, Some h4, Some w4, Some 256]"])
     apply (rule post_variable_scope)
     apply (rule post_and_then[where P = "\<lambda>y. get_shape y = Some [b, Some h3, Some w3, Some 256]"])
      apply (rule post_variable_scope)
      apply (unfold h3_def w3_def, rule eq_conv_layer_post, assumption, (simp add: pos)+)[1]
     apply (rule post_print_then)
     apply (rule post_and_then[where P = "\<lambda>y. get_shape y = Some [b, Some h4, Some w4, Some 256]"])
      apply (rule post_variable_scope)
      apply (unfold h4_def w4_def, rule eq_conv_layer_post, assumption, (simp add: pos)+)[1]
     apply (rule post_print_then)
     apply (rule post_ret, assumption)
    apply (rule post_and_then[where P = "\<lambda>y. get_shape y = Some [b, Some h6, Some w6, Some 512]"])
     apply (rule post_variable_scope)
     apply (rule post_and_then[where P = "\<lambda>y. get_shape y = Some [b, Some h5, Some w5, Some 512]"])
      apply (rule post_variable_scope)
      apply (unfold h5_def w5_def, rule eq_conv_layer_post, assumption, (simp add: pos)+)[1]
     apply (rule post_print_then)
     apply (rule post_and_then[where P = "\<lambda>y. get_shape y = Some [b, Some h6, Some w6, Some 512]"])
      apply (rule post_variable_scope)
      apply (unfold h6_def w6_def, rule eq_conv_layer_post, assumption, (simp add: pos)+)[1]
     apply (rule post_print_then)
     apply (rule post_ret, assumption)
    apply (rule post_and_then[where P = "\<lambda>y. get_shape y = Some [b, Some (h6 - 2), Some (w6 - 2), Some 2048]"])
     apply (rule post_variable_scope)
     apply (rule post_and_then[where P = "\<lambda>y. get_shape y = Some [b, Some (h6 - 3 + 1), Some (w6 - 3 + 1), Some 2048]"])
      apply (rule conv_layer_post, assumption, (simp add: big)+)[1]
     apply (rule post_dropout[THEN post_weaken], simp)
    apply (rule post_print_then)
    apply (rule post_and_then[where P = "\<lambda>y. get_shape y = Some [b, Some (h6 - 2), Some (w6 - 2), Some 2048]"])
     apply (rule post_variable_scope)
     apply (rule post_and_then[where P = "\<lambda>y. get_shape y = Some [b, Some (h6 - 2 - 1 + 1), Some (w6 - 2 - 1 + 1), Some 2048]"])
      apply (rule conv_layer_post, assumption, (use big in simp)+)[1]
     apply (rule post_dropout[THEN post_weaken], simp)
    apply (rule post_print_then)
    apply (rule post_and_then[where P = "\<lambda>y. get_shape y = Some [b, Some (h6 - 2 - 1 + 1), Some (w6 - 2 - 1 + 1), Some nc]"])
     apply (rule post_variable_scope)
     apply (rule conv_layer_post, assumption, (use big assms(5) in simp)+)[1]
    apply (rule post_print_then)
    apply (rule post_ret)
    apply (simp add: h6)
    done
qed

lemma get_ok:
  assumes "get_shape im = Some [b, Some h, Some w, Some d]" "129 \<le> h" "129 \<le> w" "0 \<le> d" "0 \<le> nc"
  shows "\<exists>out g'. get nc im kp ita tp g = (Inr out, g')
           \<and> get_shape out = Some [b, Some ((h + 63) div 64 - 2), Some ((w + 63) div 64 - 2), Some nc]"
  using get_post[OF assms, of kp ita tp] unfolding post_def by blast

lemma eq_step_facts:
  assumes "eq_step vs os it n x y"
  shows "\<exists>b h w d oh ow. get_shape x = Some [b, h, w, Some d] \<and> get_shape y = Some [b, oh, ow, Some n]
           \<and> between x y describe (eq_conv_block 3 d n [1, 2, 2, 1])"
proof -
  from assms obtain b h w d s1 s2 where
    x: "get_shape x = Some [b, h, w, Some d]" and
    s2: "conv2d_shape s1 (Some [Some 3, Some 3, Some d, Some n]) [1, 2, 2, 1] VALID = Inr s2" and
    s1: "pad_shape (get_shape x) [(0, 0), (1, 1), (1, 1), (0, 0)] = Inr s1" and
    y: "y = eq_conv_out vs os x 3 d n 1 [1, 2, 2, 1] it s1 s2"
    unfolding eq_step_def by blast
  from s1 x obtain ph pw where "s1 = Some [b, ph, pw, Some d]"
    by (cases b) (auto simp: pad_shape_def split: if_splits)
  with conv2d_shape_inv[OF s2] obtain oh ow where "s2 = Some [b, oh, ow, Some n]" by auto
  then have "get_shape y = Some [b, oh, ow, Some n]"
    by (simp add: y eq_conv_out_def bn_out_def conv_out_def)
  moreover have "between x y describe (eq_conv_block 3 d n [1, 2, 2, 1])"
    using eq_conv_out_between(1)[of x vs os 3 d n 1 "[1, 2, 2, 1]" it s1 s2]
    by (simp add: y eq_conv_block_def)
  ultimately show ?thesis using x by blast
qed

lemma conv_step_facts:
  assumes "conv_step vs os ks x y"
  shows "between x y describe (conv_block ks VALID [1, 1, 1, 1])"
    and "op_name y = scoped os ''out''"
    and "\<exists>b oh ow kh kw kc kn. ks = [Some kh, Some kw, Some kc, Some kn]
           \<and> get_shape y = Some [b, oh, ow, Some kn]"
proof -
  from assms obtain s where s: "conv2d_shape (get_shape x) (Some ks) [1, 1, 1, 1] VALID = Inr s"
    and y: "y = conv_out vs os x ks VALID [1, 1, 1, 1] s" unfolding conv_step_def by blast
  show "between x y describe (conv_block ks VALID [1, 1, 1, 1])"
    unfolding y by (rule conv_out_between)
  show "op_name y = scoped os ''out''" by (simp add: y conv_out_def op_name_def)
  show "\<exists>b oh ow kh kw kc kn. ks = [Some kh, Some kw, Some kc, Some kn]
           \<and> get_shape y = Some [b, oh, ow, Some kn]"
    using conv2d_shape_inv[OF s] by (auto simp: y conv_out_def)
qed

lemma drop_step_facts:
  assumes "drop_step os tp kp x y"
  shows "between x y describe (if tp then [DropoutL] else [])" and "get_shape y = get_shape x"
  using assms by (cases tp; auto simp: drop_step_def between_def describe_def)+

lemma scoped_append: "scoped (p @ [s]) n = scoped p (s @ ''/'' @ n)"
  by (simp add: scoped_def)

lemma get_layers:
  assumes "get nc im kp ita tp g = (Inr out, g')"
  shows "\<exists>b h w d. get_shape im = Some [b, h, w, Some d]
           \<and> between im out describe (network_layers d nc tp)"
    and "op_name out = scoped (op_scope g) ''softmax_linear/out''"
    and "\<exists>b oh ow. get_shape out = Some [b, oh, ow, Some nc]"
proof -
  from get_inv[OF assms] obtain c1 c2 c3 c4 c5 c6 f1 d1 f2 d2 where
    1: "eq_step (var_scope g @ [''128'', ''conv1'']) (op_scope g @ [''128'', ''conv1''])
             (if tp then ita else PyBool False) 128 im c1" and
    2: "eq_step (var_scope g @ [''128'', ''conv2'']) (op_scope g @ [''128'', ''conv2''])
             (if tp then ita else PyBool False) 128 c1 c2" and
    3: "eq_step (var_scope g @ [''256'', ''conv3'']) (op_scope g @ [''256'', ''conv3''])
             (if tp then ita else PyBool False) 256 c2 c3" and
    4: "eq_step (var_scope g @ [''256'', ''conv4'']) (op_scope g @ [''256'', ''conv4''])
             (if tp then ita else PyBool False) 256 c3 c4" and
    5: "eq_step (var_scope g @ [''512'', ''conv5'']) (op_scope g @ [''512'', ''conv5''])
             (if tp then ita else PyBool False) 512 c4 c5" and
    6: "eq_step (var_scope g @ [''512'', ''conv6'']) (op_scope g @ [''512'', ''conv6''])
             (if tp then ita else PyBool False) 512 c5 c6" and
    7: "conv_step (var_scope g @ [''fc1'']) (op_scope g @ [''fc1''])
             [Some 3, Some 3, Some 512, Some 2048] c6 f1" and
    8: "drop_step (op_scope g @ [''fc1'']) tp kp f1 d1" and
    9: "conv_step (var_scope g @ [''fc2'']) (op_scope g @ [''fc2''])
             [Some 1, Some 1, Some 2048, Some 2048] d1 f2" and
    10: "drop_step (op_scope g @ [''fc2'']) tp kp f2 d2" and
    11: "conv_step (var_scope g @ [''softmax_linear'']) (op_scope g @ [''softmax_linear''])
             [Some 1, Some 1, Some 2048, Some nc] d2 out"
    by blast
  from eq_step_facts[OF 1] obtain b h w d where
    im: "get_shape im = Some [b, h, w, Some d]" and
    b1: "between im c1 describe (eq_conv_block 3 d 128 [1, 2, 2, 1])" and
    s1: "\<exists>oh ow. get_shape c1 = Some [b, oh, ow, Some 128]" by blast
  from eq_step_facts[OF 2] s1 have
    b2: "between c1 c2 describe (eq_conv_block 3 128 128 [1, 2, 2, 1])" and
    s2: "\<exists>b oh ow. get_shape c2 = Some [b, oh, ow, Some 128]" by auto
  from eq_step_facts[OF 3] s2 have
    b3: "between c2 c3 describe (eq_conv_block 3 128 256 [1, 2, 2, 1])" and
    s3: "\<exists>b oh ow. get_shape c3 = Some [b, oh, ow, Some 256]" by auto
  from eq_step_facts[OF 4] s3 have
    b4: "between c3 c4 describe (eq_conv_block 3 256 256 [1, 2, 2, 1])" and
    s4: "\<exists>b oh ow. get_shape c4 = Some [b, oh, ow, Some 256]" by auto
  from eq_step_facts[OF 5] s4 have
    b5: "between c4 c5 describe (eq_conv_block 3 256 512 [1, 2, 2, 1])" and
    s5: "\<exists>b oh ow. get_shape c5 = Some [b, oh, ow, Some 512]" by auto
  from eq_step_facts[OF 6] s5 have
    b6: "between c5 c6 describe (eq_conv_block 3 512 512 [1, 2, 2, 1])" by auto
  note r11 = conv_step_facts(1)[OF 11]
  note r10 = between_trans[OF drop_step_facts(1)[OF 10] r11]
  note r9 = between_trans[OF conv_step_facts(1)[OF 9] r10]
  note r8 = between_trans[OF drop_step_facts(1)[OF 8] r9]
  note r7 = between_trans[OF conv_step_facts(1)[OF 7] r8]
  note r6 = between_trans[OF b6 r7]
  note r5 = between_trans[OF b5 r6]
  note r4 = between_trans[OF b4 r5]
  note r3 = between_trans[OF b3 r4]
  note r2 = between_trans[OF b2 r3]
  note r1 = between_trans[OF b1 r2]
  have "between im out describe (network_layers d nc tp)"
    unfolding network_layers_def by (rule r1)
  with im show "\<exists>b h w d. get_shape im = Some [b, h, w, Some d]
           \<and> between im out describe (network_layers d nc tp)" by blast
  show "op_name out = scoped (op_scope g) ''softmax_linear/out''"
    using conv_step_facts(2)[OF 11] by (simp add: scoped_append)
  show "\<exists>b oh ow. get_shape out = Some [b, oh, ow, Some nc]"
    using conv_step_facts(3)[OF 11] by auto
qed

lemma hd_path: "path t \<noteq> [] \<and> hd (path t) = t"
  by (cases t) simp

lemma sample_get_ok:
  assumes "0 \<le> nc"
  shows "\<exists>out g'. get nc sample_images kp ita tp g = (Inr out, g')
           \<and> get_shape out = Some [None, Some 1, Some 1, Some nc]"
  using get_ok[of sample_images None 192 192 3 nc kp ita tp g] assms
  by (simp add: sample_images_def INPUT_SIDE_def INPUT_DEPTH_def)

lemma eq_step_traced:
  assumes "eq_step vs os it n x y" "get_shape x = Some [b, Some h, Some w, Some d]"
  shows "get_shape y = Some [b, Some (halved h), Some (halved w), Some n]"
    and "between x y traced (eq_trace b h w d n)"
proof -
  from assms obtain s1 s2 where
    s1: "pad_shape (Some [b, Some h, Some w, Some d]) [(0, 0), (1, 1), (1, 1), (0, 0)] = Inr s1" and
    s2: "conv2d_shape s1 (Some [Some 3, Some 3, Some d, Some n]) [1, 2, 2, 1] VALID = Inr s2" and
    y: "y = eq_conv_out vs os x 3 d n 1 [1, 2, 2, 1] it s1 s2"
    unfolding eq_step_def by auto
  have s1': "s1 = Some [b, Some (h + 2), Some (w + 2), Some d]"
    using s1 by (cases b) (auto simp: pad_shape_def split: if_splits)
  have s2': "s2 = Some [b, Some (halved h), Some (halved w), Some n]"
    using s2 unfolding s1'
    by (auto simp: conv2d_shape_def conv_out_size_def halved_def add.commute split: if_splits)
  show "get_shape y = Some [b, Some (halved h), Some (halved w), Some n]"
    by (simp add: y s2' eq_conv_out_def bn_out_def conv_out_def)
  show "between x y traced (eq_trace b h w d n)"
    by (simp add: between_def y s1' s2' eq_conv_out_def bn_out_def conv_out_def traced_def
        describe_def eq_trace_def eq_conv_block_def Let_def)
qed

lemma conv_step_traced:
  assumes "conv_step vs os [Some kh, Some kw, Some kc, Some kn] x y"
    "get_shape x = Some [b, Some h, Some w, c]"
  shows "kh \<le> h \<and> kw \<le> w"
    and "get_shape y = Some [b, Some (h - kh + 1), Some (w - kw + 1), Some kn]"
    and "between x y traced
           (zip (conv_block [Some kh, Some kw, Some kc, Some kn] VALID [1, 1, 1, 1])
              (replicate 3 (Some [b, Some (h - kh + 1), Some (w - kw + 1), Some kn])))"
proof -
  from assms obtain s where
    s: "conv2d_shape (Some [b, Some h, Some w, c]) (Some [Some kh, Some kw, Some kc, Some kn])
          [1, 1, 1, 1] VALID = Inr s"
    and y: "y = conv_out vs os x [Some kh, Some kw, Some kc, Some kn] VALID [1, 1, 1, 1] s"
    unfolding conv_step_def by auto
  from s show k: "kh \<le> h \<and> kw \<le> w"
    by (auto simp: conv2d_shape_def conv_out_size_def split: if_splits)
  from s have s': "s = Some [b, Some (h - kh + 1), Some (w - kw + 1), Some kn]"
    by (auto simp: conv2d_shape_def conv_out_size_def split: if_splits)
  show "get_shape y = Some [b, Some (h - kh + 1), Some (w - kw + 1), Some kn]"
    by (simp add: y s' conv_out_def)
  show "between x y traced
           (zip (conv_block [Some kh, Some kw, Some kc, Some kn] VALID [1, 1, 1, 1])
              (replicate 3 (Some [b, Some (h - kh + 1), Some (w - kw + 1), Some kn])))"
    by (simp add: between_def y s' conv_out_def traced_def describe_def conv_block_def
        numeral_3_eq_3)
qed

lemma drop_step_traced:
  assumes "drop_step os tp kp x y"
  shows "between x y traced (if tp then [(DropoutL, get_shape x)] else [])"
  using assms by (cases tp; auto simp: drop_step_def between_def describe_def traced_def)

lemma filter_traced:
  "map get_shape (filter is_batch_norm ts)
     = map snd (filter (\<lambda>p. fst p = BatchNormL) (map traced ts))"
  by (induction ts) (auto simp: is_batch_norm_def traced_def)

lemma get_traced:
  assumes "get nc im kp ita tp g = (Inr out, g')"
    and "get_shape im = Some [b, Some h, Some w, Some d]"
  shows "129 \<le> h \<and> 129 \<le> w"
    and "get_shape out = Some [b, Some ((h + 63) div 64 - 2), Some ((w + 63) div 64 - 2), Some nc]"
    and "map get_shape (filter is_batch_norm (applied im out)) =
           [Some [b, Some (halved h), Some (halved w), Some 128],
            Some [b, Some (halved (halved h)), Some (halved (halved w)), Some 128],
            Some [b, Some (halved (halved (halved h))), Some (halved (halved (halved w))), Some 256],
            Some [b, Some (halved (halved (halved (halved h)))),
                  Some (halved (halved (halved (halved w)))), Some 256],
            Some [b, Some (halved (halved (halved (halved (halved h))))),
                  Some (halved (halved (halved (halved (halved w))))), Some 512],
            Some [b, Some ((h + 63) div 64), Some ((w + 63) div 64), Some 512]]"
proof -
  from get_inv[OF assms(1)] obtain c1 c2 c3 c4 c5 c6 f1 d1 f2 d2 where
    1: "eq_step (var_scope g @ [''128'', ''conv1'']) (op_scope g @ [''128'', ''conv1''])
             (if tp then ita else PyBool False) 128 im c1" and
    2: "eq_step (var_scope g @ [''128'', ''conv2'']) (op_scope g @ [''128'', ''conv2''])
             (if tp then ita else PyBool False) 128 c1 c2" and
    3: "eq_step (var_scope g @ [''256'', ''conv3'']) (op_scope g @ [''256'', ''conv3''])
             (if tp then ita else PyBool False) 256 c2 c3" and
    4: "eq_step (var_scope g @ [''256'', ''conv4'']) (op_scope g @ [''256'', ''conv4''])
             (if tp then ita else PyBool False) 256 c3 c4" and
    5: "eq_step (var_scope g @ [''512'', ''conv5'']) (op_scope g @ [''512'', ''conv5''])
             (if tp then ita else PyBool False) 512 c4 c5" and
    6: "eq_step (var_scope g @ [''512'', ''conv6'']) (op_scope g @ [''512'', ''conv6''])
             (if tp then ita else PyBool False) 512 c5 c6" and
    7: "conv_step (var_scope g @ [''fc1'']) (op_scope g @ [''fc1''])
             [Some 3, Some 3, Some 512, Some 2048] c6 f1" and
    8: "drop_step (op_scope g @ [''fc1'']) tp kp f1 d1" and
    9: "conv_step (var_scope g @ [''fc2'']) (op_scope g @ [''fc2''])
             [Some 1, Some 1, Some 2048, Some 2048] d1 f2" and
    10: "drop_step (op_scope g @ [''fc2'']) tp kp f2 d2" and
    11: "conv_step (var_scope g @ [''softmax_linear'']) (op_scope g @ [''softmax_linear''])
             [Some 1, Some 1, Some 2048, Some nc] d2 out"
    by blast
  define h6 where "h6 = (h + 63) div 64"
  define w6 where "w6 = (w + 63) div 64"
  note t1 = eq_step_traced[OF 1 assms(2)]
  note t2 = eq_step_traced[OF 2 t1(1)]
  note t3 = eq_step_traced[OF 3 t2(1)]
  note t4 = eq_step_traced[OF 4 t3(1)]
  note t5 = eq_step_traced[OF 5 t4(1)]
  note t6 = eq_step_traced[OF 6 t5(1)]
  have s6: "get_shape c6 = Some [b, Some h6, Some w6, Some 512]"
    using t6(1) by (simp add: halved6 h6_def w6_def)
  note t7 = conv_step_traced[OF 7 s6]
  have s8: "get_shape d1 = Some [b, Some (h6 - 3 + 1), Some (w6 - 3 + 1), Some 2048]"
    using drop_step_facts(2)[OF 8] t7(2) by simp
  note t9 = conv_step_traced[OF 9 s8]
  have s10: "get_shape d2 = Some [b, Some (h6 - 3 + 1 - 1 + 1), Some (w6 - 3 + 1 - 1 + 1), Some 2048]"
    using drop_step_facts(2)[OF 10] t9(2) by simp
  note t11 = conv_step_traced[OF 11 s10]
  have "3 \<le> (h + 63) div 64" "3 \<le> (w + 63) div 64" using t7(1) by (simp_all add: h6_def w6_def)
  moreover have "(x + 63) div 64 \<le> (128 + 63) div 64" if "x \<le> 128" for x :: int
    using that by (intro zdiv_mono1) simp_all
  ultimately show "129 \<le> h \<and> 129 \<le> w" by fastforce
  show "get_shape out = Some [b, Some ((h + 63) div 64 - 2), Some ((w + 63) div 64 - 2), Some nc]"
    using t11(2) by (simp add: h6_def w6_def)
  note r11 = t11(3)
  note r10 = between_trans[OF drop_step_traced[OF 10] r11]
  note r9 = between_trans[OF t9(3) r10]
  note r8 = between_trans[OF drop_step_traced[OF 8] r9]
  note r7 = between_trans[OF t7(3) r8]
  note r6 = between_trans[OF t6(2) r7]
  note r5 = between_trans[OF t5(2) r6]
  note r4 = between_trans[OF t4(2) r5]
  note r3 = between_trans[OF t3(2) r4]
  note r2 = between_trans[OF t2(2) r3]
  note r1 = between_trans[OF t1(2) r2]
  show "map get_shape (filter is_batch_norm (applied im out)) =
           [Some [b, Some (halved h), Some (halved w), Some 128],
            Some [b, Some (halved (halved h)), Some (halved (halved w)), Some 128],
            Some [b, Some (halved (halved (halved h))), Some (halved (halved (halved w))), Some 256],
            Some [b, Some (halved (halved (halved (halved h)))),
                  Some (halved (halved (halved (halved w)))), Some 256],
            Some [b, Some (halved (halved (halved (halved (halved h))))),
                  Some (halved (halved (halved (halved (halved w))))), Some 512],
            Some [b, Some ((h + 63) div 64), Some ((w + 63) div 64), Some 512]]"
    unfolding filter_traced between_applied(1)[OF r1]
    by (simp add: eq_trace_def eq_conv_block_def conv_block_def numeral_3_eq_3 Let_def halved6)
qed

lemma eq_step_stats:
  assumes "eq_step vs os it n x y"
  shows "between x y bn_statistics [[], [], [], [], stat_names vs]"
  using assms
  by (auto simp: eq_step_def between_def eq_conv_out_def bn_out_def conv_out_def
      bn_statistics_def op_name_def stat_names_def bn_var_def)

lemma conv_step_stats:
  assumes "conv_step vs os ks x y"
  shows "between x y bn_statistics [[], [], []]"
  using assms
  by (auto simp: conv_step_def between_def conv_out_def bn_statistics_def)

lemma drop_step_stats:
  assumes "drop_step os tp kp x y"
  shows "between x y bn_statistics (if tp then [[]] else [])"
  using assms by (cases tp; auto simp: drop_step_def between_def bn_statistics_def)

lemma get_stats:
  assumes "get nc im kp ita tp g = (Inr out, g')"
  shows "concat (map bn_statistics (applied im out)) =
           stat_names (var_scope g @ [''128'', ''conv1'']) @ stat_names (var_scope g @ [''128'', ''conv2''])
         @ stat_names (var_scope g @ [''256'', ''conv3'']) @ stat_names (var_scope g @ [''256'', ''conv4''])
         @ stat_names (var_scope g @ [''512'', ''conv5'']) @ stat_names (var_scope g @ [''512'', ''conv6''])"
proof -
  from get_inv[OF assms] obtain c1 c2 c3 c4 c5 c6 f1 d1 f2 d2 where
    1: "eq_step (var_scope g @ [''128'', ''conv1'']) (op_scope g @ [''128'', ''conv1''])
             (if tp then ita else PyBool False) 128 im c1" and
    2: "eq_step (var_scope g @ [''128'', ''conv2'']) (op_scope g @ [''128'', ''conv2''])
             (if tp then ita else PyBool False) 128 c1 c2" and
    3: "eq_step (var_scope g @ [''256'', ''conv3'']) (op_scope g @ [''256'', ''conv3''])
             (if tp then ita else PyBool False) 256 c2 c3" and
    4: "eq_step (var_scope g @ [''256'', ''conv4'']) (op_scope g @ [''256'', ''conv4''])
             (if tp then ita else PyBool False) 256 c3 c4" and
    5: "eq_step (var_scope g @ [''512'', ''conv5'']) (op_scope g @ [''512'', ''conv5''])
             (if tp then ita else PyBool False) 512 c4 c5" and
    6: "eq_step (var_scope g @ [''512'', ''conv6'']) (op_scope g @ [''512'', ''conv6''])
             (if tp then ita else PyBool False) 512 c5 c6" and
    7: "conv_step (var_scope g @ [''fc1'']) (op_scope g @ [''fc1''])
             [Some 3, Some 3, Some 512, Some 2048] c6 f1" and
    8: "drop_step (op_scope g @ [''fc1'']) tp kp f1 d1" and
    9: "conv_step (var_scope g @ [''fc2'']) (op_scope g @ [''fc2''])
             [Some 1, Some 1, Some 2048, Some 2048] d1 f2" and
    10: "drop_step (op_scope g @ [''fc2'']) tp kp f2 d2" and
    11: "conv_step (var_scope g @ [''softmax_linear'']) (op_scope g @ [''softmax_linear''])
             [Some 1, Some 1, Some 2048, Some nc] d2 out"
    by blast
  note r11 = conv_step_stats[OF 11]
  note r10 = between_trans[OF drop_step_stats[OF 10] r11]
  note r9 = between_trans[OF conv_step_stats[OF 9] r10]
  note r8 = between_trans[OF drop_step_stats[OF 8] r9]
  note r7 = between_trans[OF conv_step_stats[OF 7] r8]
  note r6 = between_trans[OF eq_step_stats[OF 6] r7]
  note r5 = between_trans[OF eq_step_stats[OF 5] r6]
  note r4 = between_trans[OF eq_step_stats[OF 4] r5]
  note r3 = between_trans[OF eq_step_stats[OF 3] r4]
  note r2 = between_trans[OF eq_step_stats[OF 2] r3]
  note r1 = between_trans[OF eq_step_stats[OF 1] r2]
  show ?thesis unfolding between_applied(1)[OF r1] by simp
qed

lemma stat_names_saved:
  assumes "set (bn_vars vs' n) \<subseteq> set (variables_to_save addlist g)"
    and "vs' = vs @ [''eq_conv_layer'']"
  shows "\<forall>s \<in> set (stat_names vs). \<exists>v \<in> set (variables_to_save addlist g).
           var_name v = s \<and> \<not> var_trainable v"
proof -
  have 1: "bn_var (vs @ [''eq_conv_layer'']) ''moving_mean'' n ZerosInit False
          \<in> set (variables_to_save addlist g)"
    and 2: "bn_var (vs @ [''eq_conv_layer'']) ''moving_variance'' n OnesInit False
          \<in> set (variables_to_save addlist g)"
    using assms by (auto simp: bn_vars_def)
  have "\<exists>v \<in> set (variables_to_save addlist g).
          var_name v = var_name (bn_var (vs @ [''eq_conv_layer'']) ''moving_mean'' 0 ZerosInit False)
          \<and> \<not> var_trainable v"
    by (rule bexI[OF _ 1]) (simp add: bn_var_def)
  moreover have "\<exists>v \<in> set (variables_to_save addlist g).
          var_name v = var_name (bn_var (vs @ [''eq_conv_layer'']) ''moving_variance'' 0 OnesInit False)
          \<and> \<not> var_trainable v"
    by (rule bexI[OF _ 2]) (simp add: bn_var_def)
  ultimately show ?thesis by (simp add: stat_names_def)
qed

lemma get_saves_statistics:
  assumes "get nc im kp ita tp g = (Inr out, g')"
  shows "\<forall>s \<in> set (concat (map bn_statistics (applied im out))).
           \<exists>v \<in> set (variables_to_save addlist g'). var_name v = s \<and> \<not> var_trainable v"
proof -
  have sub: "set (bn_vars (var_scope g @ sc @ [''eq_conv_layer'']) n)
               \<subseteq> set (variables_to_save addlist g')"
    if "(sc, n) \<in> {([''128'', ''conv1''], 128), ([''128'', ''conv2''], 128),
                     ([''256'', ''conv3''], 256), ([''256'', ''conv4''], 256),
                     ([''512'', ''conv5''], 512), ([''512'', ''conv6''], 512)}" for sc n
    using that get_req[OF assms]
    by (auto simp: variables_to_save_def get_collection_ref_def)
  show ?thesis
    unfolding get_stats[OF assms] set_append ball_Un
    using stat_names_saved[OF sub[of "[''128'', ''conv1'']" 128], of "var_scope g @ [''128'', ''conv1'']"]
      stat_names_saved[OF sub[of "[''128'', ''conv2'']" 128], of "var_scope g @ [''128'', ''conv2'']"]
      stat_names_saved[OF sub[of "[''256'', ''conv3'']" 256], of "var_scope g @ [''256'', ''conv3'']"]
      stat_names_saved[OF sub[of "[''256'', ''conv4'']" 256], of "var_scope g @ [''256'', ''conv4'']"]
      stat_names_saved[OF sub[of "[''512'', ''conv5'']" 512], of "var_scope g @ [''512'', ''conv5'']"]
      stat_names_saved[OF sub[of "[''512'', ''conv6'']" 512], of "var_scope g @ [''512'', ''conv6'']"]
    by simp
qed

lemma define_model_ok:
  assumes "0 \<le> nc"
  shows "\<exists>r. define_model nc tp empty_graph = (Inr r, snd (define_model nc tp empty_graph))"
proof -
  have "\<exists>out g'. get nc sample_images sample_keep_prob sample_is_training tp empty_graph
          = (Inr out, g')"
    using sample_get_ok[OF assms, of sample_keep_prob sample_is_training tp empty_graph] by blast
  then show ?thesis
    by (auto simp: define_model_def and_then_def tf_placeholder_def ret_def empty_graph_def
        scoped_def sample_images_def sample_keep_prob_def sample_is_training_def)
qed

lemma export_model_skip:
  assumes "model_filename \<in> files w"
  shows "export_model nc dir ckpt model_filename w
           = (Inr PyNone,
              w\<lparr>events := events w @
                   [StdoutLine (model_filename @ '' already exists. Skipping export_model'')]\<rparr>)"
  using assms by (simp add: export_model_def emit_def)

lemma export_model_value_error:
  assumes "model_filename \<notin> files w" "0 \<le> nc" "restore w (dir @ ''/'' @ ckpt) = RestoreValueError"
  shows "export_model nc dir ckpt model_filename w
           = (Inr (PyInt (- 1)),
              w\<lparr>events := events w @ [GraphCreated ''/cpu:0'']
                   @ map StdoutTensor (stdout (model_graph nc))
                   @ [ModelDefined nc False (model_graph nc),
                      SaverCreated (all_variables (model_graph nc)), SessionOpened,
                      RestoreCalled (dir @ ''/'' @ ckpt),
                      StderrLine ''[E] Unable to restore from checkpoint'', SessionClosed]\<rparr>)"
proof -
  from define_model_ok[OF assms(2), of False] obtain r where
    "define_model nc False empty_graph = (Inr r, model_graph nc)"
    unfolding model_graph_def by blast
  then show ?thesis using assms(1,3)
    by (simp add: export_model_def emit_def Let_def)
qed

lemma export_model_restored:
  assumes "model_filename \<notin> files w" "0 \<le> nc" "restore w (dir @ ''/'' @ ckpt) = Restored"
  shows "export_model nc dir ckpt model_filename w
           = (Inr PyNone,
              w\<lparr>files := insert model_filename (insert (path_join dir ''skeleton.pbtxt'') (files w)),
                events := events w @ [GraphCreated ''/cpu:0'']
                   @ map StdoutTensor (stdout (model_graph nc))
                   @ [ModelDefined nc False (model_graph nc),
                      SaverCreated (all_variables (model_graph nc)), SessionOpened,
                      RestoreCalled (dir @ ''/'' @ ckpt),
                      GraphWritten (model_graph nc) dir ''skeleton.pbtxt'' True,
                      FreezeGraphCalled
                        \<lparr>input_graph = dir @ ''/skeleton.pbtxt'', input_saver = [],
                         input_binary = False, input_checkpoint_path = dir @ ''/'' @ ckpt,
                         output_node_names = OUTPUT_TENSOR_NAME,
                         restore_op_name = ''save/restore_all'',
                         filename_tensor_name = ''save/Const:0'',
                         output_graph = model_filename, clear_devices = True,
                         initializer_nodes = []\<rparr>,
                      SessionClosed]\<rparr>)"
proof -
  from define_model_ok[OF assms(2), of False] obtain r where
    "define_model nc False empty_graph = (Inr r, model_graph nc)"
    unfolding model_graph_def by blast
  then show ?thesis using assms(1,3)
    by (simp add: export_model_def emit_def Let_def write_graph_def freeze_graph_def)
qed

lemma main_steps_append: "main_steps (xs @ ys) = main_steps xs @ main_steps ys"
  by (induction xs) (simp_all split: option.splits)

lemma main_steps_stdout: "main_steps (map StdoutTensor ts) = []"
  by (induction ts) (simp_all add: main_step_def)



lemma eq_step_flag:
  assumes "eq_step vs os it n x y"
  shows "between x y training_flag [None, None, None, None, Some it]"
  using assms
  by (auto simp: eq_step_def between_def eq_conv_out_def bn_out_def conv_out_def
      training_flag_def eq_bn_args_def)

lemma conv_step_flag:
  assumes "conv_step vs os ks x y"
  shows "between x y training_flag [None, None, None]"
  using assms
  by (auto simp: conv_step_def between_def conv_out_def training_flag_def)

lemma drop_step_flag:
  assumes "drop_step os tp kp x y"
  shows "between x y training_flag (if tp then [None] else [])"
  using assms by (cases tp; auto simp: drop_step_def between_def training_flag_def)

lemma get_flags:
  assumes "get nc im kp ita tp g = (Inr out, g')"
  shows "\<forall>t \<in> set (applied im out).
           training_flag t = None \<or> training_flag t = Some (if tp then ita else PyBool False)"
proof -
  from get_inv[OF assms] obtain c1 c2 c3 c4 c5 c6 f1 d1 f2 d2 where
    1: "eq_step (var_scope g @ [''128'', ''conv1'']) (op_scope g @ [''128'', ''conv1''])
             (if tp then ita else PyBool False) 128 im c1" and
    2: "eq_step (var_scope g @ [''128'', ''conv2'']) (op_scope g @ [''128'', ''conv2''])
             (if tp then ita else PyBool False) 128 c1 c2" and
    3: "eq_step (var_scope g @ [''256'', ''conv3'']) (op_scope g @ [''256'', ''conv3''])
             (if tp then ita else PyBool False) 256 c2 c3" and
    4: "eq_step (var_scope g @ [''256'', ''conv4'']) (op_scope g @ [''256'', ''conv4''])
             (if tp then ita else PyBool False) 256 c3 c4" and
    5: "eq_step (var_scope g @ [''512'', ''conv5'']) (op_scope g @ [''512'', ''conv5''])
             (if tp then ita else PyBool False) 512 c4 c5" and
    6: "eq_step (var_scope g @ [''512'', ''conv6'']) (op_scope g @ [''512'', ''conv6''])
             (if tp then ita else PyBool False) 512 c5 c6" and
    7: "conv_step (var_scope g @ [''fc1'']) (op_scope g @ [''fc1''])
             [Some 3, Some 3, Some 512, Some 2048] c6 f1" and
    8: "drop_step (op_scope g @ [''fc1'']) tp kp f1 d1" and
    9: "conv_step (var_scope g @ [''fc2'']) (op_scope g @ [''fc2''])
             [Some 1, Some 1, Some 2048, Some 2048] d1 f2" and
    10: "drop_step (op_scope g @ [''fc2'']) tp kp f2 d2" and
    11: "conv_step (var_scope g @ [''softmax_linear'']) (op_scope g @ [''softmax_linear''])
             [Some 1, Some 1, Some 2048, Some nc] d2 out"
    by blast
  note r11 = conv_step_flag[OF 11]
  note r10 = between_trans[OF drop_step_flag[OF 10] r11]
  note r9 = between_trans[OF conv_step_flag[OF 9] r10]
  note r8 = between_trans[OF drop_step_flag[OF 8] r9]
  note r7 = between_trans[OF conv_step_flag[OF 7] r8]
  note r6 = between_trans[OF eq_step_flag[OF 6] r7]
  note r5 = between_trans[OF eq_step_flag[OF 5] r6]
  note r4 = between_trans[OF eq_step_flag[OF 4] r5]
  note r3 = between_trans[OF eq_step_flag[OF 3] r4]
  note r2 = between_trans[OF eq_step_flag[OF 2] r3]
  note r1 = between_trans[OF eq_step_flag[OF 1] r2]
  have "\<forall>f \<in> set (map training_flag (applied im out)).
          f = None \<or> f = Some (if tp then ita else PyBool False)"
    unfolding between_applied(1)[OF r1] by simp
  then show ?thesis by simp
qed

section \<open>The claims\<close>

text \<open>
  Claim C1. Whatever the number of classes and the input tensor, every graph that
  \<open>get\<close> builds applies to the input six padded, normalised convolution blocks in
  sequence and no seventh: each with a 3 by 3 kernel and strides \<open>[1, 2, 2, 1]\<close>, with
  128, 128, 256, 256, 512 and 512 kernels.
\<close>

theorem get_six_conv_blocks:
  assumes "get num_classes images_ph keep_prob_ph is_training_ph train_phase g = (Inr out, g')"
  shows "\<exists>d. shape_index (get_shape images_ph) 3 = Inr (Some d)
         \<and> path out = rev (applied images_ph out) @ path images_ph
         \<and> take 30 (map describe (applied images_ph out)) =
               eq_conv_block KERNEL_SIDE d 128 [1, 2, 2, 1]
             @ eq_conv_block KERNEL_SIDE 128 128 [1, 2, 2, 1]
             @ eq_conv_block KERNEL_SIDE 128 256 [1, 2, 2, 1]
             @ eq_conv_block KERNEL_SIDE 256 256 [1, 2, 2, 1]
             @ eq_conv_block KERNEL_SIDE 256 512 [1, 2, 2, 1]
             @ eq_conv_block KERNEL_SIDE 512 512 [1, 2, 2, 1]
         \<and> length (filter (\<lambda>l. l = BatchNormL) (map describe (applied images_ph out))) = 6
         \<and> BatchNormL \<notin> set (drop 30 (map describe (applied images_ph out)))"
proof -
  from get_layers(1)[OF assms] obtain b h w d where
    im: "get_shape images_ph = Some [b, h, w, Some d]" and
    bt: "between images_ph out describe (network_layers d num_classes train_phase)" by blast
  have ls: "map describe (applied images_ph out) = network_layers d num_classes train_phase"
    and p: "path out = rev (applied images_ph out) @ path images_ph"
    using between_applied[OF bt] by simp_all
  have "shape_index (get_shape images_ph) 3 = Inr (Some d)"
    by (simp add: im shape_index_def py_index_def)
  moreover have "take 30 (network_layers d num_classes train_phase) =
               eq_conv_block KERNEL_SIDE d 128 [1, 2, 2, 1]
             @ eq_conv_block KERNEL_SIDE 128 128 [1, 2, 2, 1]
             @ eq_conv_block KERNEL_SIDE 128 256 [1, 2, 2, 1]
             @ eq_conv_block KERNEL_SIDE 256 256 [1, 2, 2, 1]
             @ eq_conv_block KERNEL_SIDE 256 512 [1, 2, 2, 1]
             @ eq_conv_block KERNEL_SIDE 512 512 [1, 2, 2, 1]"
    by (simp add: network_layers_def eq_conv_block_def KERNEL_SIDE_def)
  moreover have "length (filter (\<lambda>l. l = BatchNormL) (network_layers d num_classes train_phase)) = 6"
    by (simp add: network_layers_def eq_conv_block_def conv_block_def)
  moreover have "BatchNormL \<notin> set (drop 30 (network_layers d num_classes train_phase))"
    by (simp add: network_layers_def eq_conv_block_def conv_block_def)
  ultimately show ?thesis using ls p by auto
qed

theorem get_six_conv_blocks_witness:
  "\<exists>out g'. get 10 sample_images sample_keep_prob sample_is_training False empty_graph = (Inr out, g')
     \<and> take 30 (map describe (applied sample_images out)) =
               eq_conv_block 3 3 128 [1, 2, 2, 1] @ eq_conv_block 3 128 128 [1, 2, 2, 1]
             @ eq_conv_block 3 128 256 [1, 2, 2, 1] @ eq_conv_block 3 256 256 [1, 2, 2, 1]
             @ eq_conv_block 3 256 512 [1, 2, 2, 1] @ eq_conv_block 3 512 512 [1, 2, 2, 1]
     \<and> length (filter (\<lambda>l. l = BatchNormL) (map describe (applied sample_images out))) = 6"
proof -
  from sample_get_ok[of 10 sample_keep_prob sample_is_training False empty_graph]
  obtain out g' where
    ok: "get 10 sample_images sample_keep_prob sample_is_training False empty_graph = (Inr out, g')"
    by auto
  from get_six_conv_blocks[OF ok] show ?thesis
    using ok by (auto simp: sample_images_def shape_index_def py_index_def INPUT_DEPTH_def KERNEL_SIDE_def)
qed

text \<open>
  Claim C8. Outside the train phase the graph that \<open>get\<close> builds, and the state it
  leaves, do not depend on the dropout probability nor on the training flag: no dropout
  is applied, and every batch normalisation gets Python's \<open>False\<close> in place of the flag.
\<close>

theorem get_inference_ignores_placeholders:
  "get num_classes images_ph keep_prob1 is_training1 False g =
   get num_classes images_ph keep_prob2 is_training2 False g
   \<and> (get num_classes images_ph keep_prob1 is_training1 False g = (Inr out, g') \<longrightarrow>
        DropoutL \<notin> set (map describe (applied images_ph out))
      \<and> (\<forall>t \<in> set (applied images_ph out).
            training_flag t = None \<or> training_flag t = Some (PyBool False)))"
proof (intro conjI impI)
  show "get num_classes images_ph keep_prob1 is_training1 False g =
        get num_classes images_ph keep_prob2 is_training2 False g"
    by (simp add: get_def)
next
  assume a: "get num_classes images_ph keep_prob1 is_training1 False g = (Inr out, g')"
  from get_layers(1)[OF a] obtain d where
    "between images_ph out describe (network_layers d num_classes False)" by blast
  from between_applied(1)[OF this]
  show "DropoutL \<notin> set (map describe (applied images_ph out))"
    by (simp add: network_layers_def eq_conv_block_def conv_block_def)
  show "\<forall>t \<in> set (applied images_ph out).
            training_flag t = None \<or> training_flag t = Some (PyBool False)"
    using get_flags[OF a] by simp
qed

theorem get_inference_ignores_placeholders_witness:
  "\<exists>out g'. get sample_num_classes sample_images sample_keep_prob sample_is_training False
       empty_graph = (Inr out, g')
     \<and> get sample_num_classes sample_images sample_keep_prob sample_is_training False empty_graph
       = get sample_num_classes sample_images sample_logits (PyBool True) False empty_graph
     \<and> DropoutL \<notin> set (map describe (applied sample_images out))
     \<and> (\<forall>t \<in> set (applied sample_images out).
            training_flag t = None \<or> training_flag t = Some (PyBool False))"
proof -
  from sample_get_ok[of sample_num_classes sample_keep_prob sample_is_training False empty_graph]
  obtain out g' where
    1: "get sample_num_classes sample_images sample_keep_prob sample_is_training False empty_graph
          = (Inr out, g')"
    by (auto simp: sample_num_classes_def)
  from get_inference_ignores_placeholders[of sample_num_classes sample_images sample_keep_prob
      sample_is_training empty_graph sample_logits "PyBool True" out g'] 1
  show ?thesis by blast
qed

text \<open>
  Claim C2, as stated, fails: the first of the two dense blocks, \<open>fc1\<close>, convolves with a
  kernel of side \<open>LAST_KERNEL_SIDE = 3\<close>, not 1. On the 192 by 192 input the operation at
  position 30, the convolution of \<open>fc1\<close>, has kernel shape 3 by 3 by 512 by 2048.
\<close>

theorem fc1_kernel_counterexample:
  "case fst (get 10 sample_images sample_keep_prob sample_is_training False empty_graph) of
     Inl e \<Rightarrow> False
   | Inr out \<Rightarrow>
       map describe (applied sample_images out) ! 30
         = ConvL [Some 3, Some 3, Some 512, Some FC_NEURONS] [1, 1, 1, 1] VALID
     \<and> map describe (applied sample_images out) ! 30
         \<noteq> ConvL [Some 1, Some 1, Some 512, Some FC_NEURONS] [1, 1, 1, 1] VALID"
proof -
  from sample_get_ok[of 10 sample_keep_prob sample_is_training False empty_graph]
  obtain out g' where
    ok: "get 10 sample_images sample_keep_prob sample_is_training False empty_graph = (Inr out, g')"
    by auto
  from get_layers(1)[OF ok] obtain d where
    "between sample_images out describe (network_layers d 10 False)" by blast
  from between_applied(1)[OF this]
  have "map describe (applied sample_images out) ! 30
          = ConvL [Some 3, Some 3, Some 512, Some FC_NEURONS] [1, 1, 1, 1] VALID"
    by (simp add: network_layers_def eq_conv_block_def conv_block_def FC_NEURONS_def)
  then show ?thesis using ok by simp
qed

text \<open>
  Claim C2, amended. In every graph that \<open>get\<close> builds, the output of the sixth block
  goes through exactly two dense blocks before the final projection, each to
  \<open>FC_NEURONS = 2048\<close> channels with VALID padding and strides \<open>[1, 1, 1, 1]\<close>: \<open>fc1\<close>
  with a kernel of side \<open>LAST_KERNEL_SIDE = 3\<close> and \<open>fc2\<close> with a kernel of side 1, each
  followed by dropout in the train phase only.
\<close>

theorem get_dense_blocks:
  assumes "get num_classes images_ph keep_prob_ph is_training_ph train_phase g = (Inr out, g')"
  shows "drop 30 (map describe (applied images_ph out)) =
             conv_block [Some LAST_KERNEL_SIDE, Some LAST_KERNEL_SIDE, Some 512, Some FC_NEURONS]
               VALID [1, 1, 1, 1]
           @ (if train_phase then [DropoutL] else [])
           @ conv_block [Some 1, Some 1, Some FC_NEURONS, Some FC_NEURONS] VALID [1, 1, 1, 1]
           @ (if train_phase then [DropoutL] else [])
           @ conv_block [Some 1, Some 1, Some FC_NEURONS, Some num_classes] VALID [1, 1, 1, 1]
         \<and> LAST_KERNEL_SIDE = 3 \<and> FC_NEURONS = 2048"
proof -
  from get_layers(1)[OF assms] obtain d where
    "between images_ph out describe (network_layers d num_classes train_phase)" by blast
  from between_applied(1)[OF this] show ?thesis
    by (simp add: network_layers_def eq_conv_block_def LAST_KERNEL_SIDE_def KERNEL_SIDE_def
        FC_NEURONS_def)
qed

theorem get_dense_blocks_witness:
  "\<exists>out g'. get 10 sample_images sample_keep_prob sample_is_training True empty_graph = (Inr out, g')
     \<and> drop 30 (map describe (applied sample_images out)) =
          [ConvL [Some 3, Some 3, Some 512, Some 2048] [1, 1, 1, 1] VALID, AddL, ReluL, DropoutL,
           ConvL [Some 1, Some 1, Some 2048, Some 2048] [1, 1, 1, 1] VALID, AddL, ReluL, DropoutL,
           ConvL [Some 1, Some 1, Some 2048, Some 10] [1, 1, 1, 1] VALID, AddL, ReluL]"
proof -
  from sample_get_ok[of 10 sample_keep_prob sample_is_training True empty_graph]
  obtain out g' where
    ok: "get 10 sample_images sample_keep_prob sample_is_training True empty_graph = (Inr out, g')"
    by auto
  from get_dense_blocks[OF ok] show ?thesis
    using ok by (auto simp: conv_block_def)
qed

text \<open>
  Claim C5. The last layer of every graph that \<open>get\<close> builds is a convolution layer with
  a 1 by 1 kernel, VALID padding and strides \<open>[1, 1, 1, 1]\<close>, from \<open>FC_NEURONS = 2048\<close>
  channels to \<open>num_classes\<close> channels; its output is named \<open>softmax_linear/out\<close> in the
  scope \<open>get\<close> is called in, it is a map with one vector of \<open>num_classes\<close> entries at each
  position, and it is the tensor that \<open>get\<close> returns.
\<close>

theorem get_returns_softmax_linear:
  assumes "get num_classes images_ph keep_prob_ph is_training_ph train_phase g = (Inr out, g')"
  shows "drop (length (applied images_ph out) - 3) (map describe (applied images_ph out)) =
           conv_block [Some 1, Some 1, Some FC_NEURONS, Some num_classes] VALID [1, 1, 1, 1]
         \<and> FC_NEURONS = 2048
         \<and> last (applied images_ph out) = out
         \<and> op_name out = scoped (op_scope g) OUTPUT_TENSOR_NAME
         \<and> (op_scope g = [] \<longrightarrow> op_name out = ''softmax_linear/out'')
         \<and> (\<exists>b oh ow. get_shape out = Some [b, oh, ow, Some num_classes])"
proof -
  from get_layers(1)[OF assms] obtain d where
    bt: "between images_ph out describe (network_layers d num_classes train_phase)" by blast
  have ls: "map describe (applied images_ph out) = network_layers d num_classes train_phase"
    using between_applied(1)[OF bt] .
  have len: "length (applied images_ph out) = (if train_phase then 41 else 39)"
    using arg_cong[OF ls, of length]
    by (simp add: network_layers_def eq_conv_block_def conv_block_def)
  have 1: "drop (length (applied images_ph out) - 3) (map describe (applied images_ph out)) =
           conv_block [Some 1, Some 1, Some FC_NEURONS, Some num_classes] VALID [1, 1, 1, 1]"
    unfolding ls len
    by (simp add: network_layers_def eq_conv_block_def conv_block_def FC_NEURONS_def)
  have "applied images_ph out \<noteq> []" using len by (cases train_phase) auto
  then have 2: "last (applied images_ph out) = out"
    using hd_path[of out] by (auto simp: applied_def last_rev hd_take)
  show ?thesis
    using 1 2 get_layers(2,3)[OF assms]
    by (simp add: OUTPUT_TENSOR_NAME_def FC_NEURONS_def scoped_def)
qed

theorem get_returns_softmax_linear_witness:
  "\<exists>out g'. get 10 sample_images sample_keep_prob sample_is_training False empty_graph = (Inr out, g')
     \<and> op_name out = ''softmax_linear/out''
     \<and> drop (length (applied sample_images out) - 3) (map describe (applied sample_images out)) =
          [ConvL [Some 1, Some 1, Some 2048, Some 10] [1, 1, 1, 1] VALID, AddL, ReluL]
     \<and> last (applied sample_images out) = out"
proof -
  from sample_get_ok[of 10 sample_keep_prob sample_is_training False empty_graph]
  obtain out g' where
    ok: "get 10 sample_images sample_keep_prob sample_is_training False empty_graph = (Inr out, g')"
    by auto
  from get_returns_softmax_linear[OF ok] show ?thesis
    using ok by (auto simp: conv_block_def empty_graph_def)
qed

text \<open>
  Claim C3. \<open>eq_conv_layer\<close> pads and then convolves with VALID padding: whenever it
  builds its layer for an odd kernel side \<open>k\<close> on an input of height \<open>h\<close> and width \<open>w\<close>, it
  pads each spatial border by \<open>(k - 1) div 2\<close>, so that the padded extent is \<open>h + k - 1\<close> by
  \<open>w + k - 1\<close>, and the output has \<open>ceil(h / s)\<close> by \<open>ceil(w / s)\<close> positions for stride \<open>s\<close>:
  the input's size for stride 1, half of it for stride 2 and even sides. On a 192 by 192
  input the six blocks of \<open>get\<close> give sides 96, 48, 24, 12, 6 and 3.
\<close>

theorem eq_conv_layer_same_padding:
  "(eq_conv_layer x k n [1, s, s, 1] it g = (Inr y, g') \<and> odd k
      \<and> get_shape x = Some [b, Some h, Some w, Some d] \<longrightarrow>
        map describe (applied x y) = eq_conv_block k d n [1, s, s, 1]
      \<and> map get_shape (applied x y) ! 0 = Some [b, Some (h + k - 1), Some (w + k - 1), Some d]
      \<and> get_shape y = Some [b, Some ((h - 1 + s) div s), Some ((w - 1 + s) div s), Some n]
      \<and> (s = 1 \<longrightarrow> get_shape y = Some [b, Some h, Some w, Some n])
      \<and> (s = 2 \<and> even h \<and> even w \<longrightarrow>
            get_shape y = Some [b, Some (h div 2), Some (w div 2), Some n]))
   \<and> (get num_classes images_ph keep_prob_ph is_training_ph train_phase g0 = (Inr out, g1)
      \<and> get_shape images_ph = Some [b0, Some 192, Some 192, Some d0] \<longrightarrow>
        map get_shape (filter is_batch_norm (applied images_ph out)) =
          [Some [b0, Some 96, Some 96, Some 128], Some [b0, Some 48, Some 48, Some 128],
           Some [b0, Some 24, Some 24, Some 256], Some [b0, Some 12, Some 12, Some 256],
           Some [b0, Some 6, Some 6, Some 512], Some [b0, Some 3, Some 3, Some 512]])"
proof (intro conjI impI; (elim conjE)?)
  assume a: "eq_conv_layer x k n [1, s, s, 1] it g = (Inr y, g')" "odd k"
    "get_shape x = Some [b, Some h, Some w, Some d]"
  note f = eq_conv_layer_shapes[OF a]
  show "map describe (applied x y) = eq_conv_block k d n [1, s, s, 1]"
    using between_applied(1)[OF f(2)] .
  show "map get_shape (applied x y) ! 0 = Some [b, Some (h + k - 1), Some (w + k - 1), Some d]"
    using between_applied(1)[OF f(3)] by simp
  show y: "get_shape y = Some [b, Some ((h - 1 + s) div s), Some ((w - 1 + s) div s), Some n]"
    by (rule f(4))
  show "get_shape y = Some [b, Some h, Some w, Some n]" if "s = 1"
    using y that by simp
  show "get_shape y = Some [b, Some (h div 2), Some (w div 2), Some n]"
    if "s = 2" "even h" "even w"
    using y that by (auto elim!: evenE)
next
  assume a: "get num_classes images_ph keep_prob_ph is_training_ph train_phase g0 = (Inr out, g1)"
    "get_shape images_ph = Some [b0, Some 192, Some 192, Some d0]"
  show "map get_shape (filter is_batch_norm (applied images_ph out)) =
          [Some [b0, Some 96, Some 96, Some 128], Some [b0, Some 48, Some 48, Some 128],
           Some [b0, Some 24, Some 24, Some 256], Some [b0, Some 12, Some 12, Some 256],
           Some [b0, Some 6, Some 6, Some 512], Some [b0, Some 3, Some 3, Some 512]]"
    using get_traced(3)[OF a] by (simp add: halved_def)
qed

theorem eq_conv_layer_same_padding_witness:
  "\<exists>y g' out g1.
     eq_conv_layer sample_images 3 128 [1, 2, 2, 1] (PyBool False) empty_graph = (Inr y, g')
   \<and> get sample_num_classes sample_images sample_keep_prob sample_is_training False empty_graph
       = (Inr out, g1)
   \<and> map describe (applied sample_images y) =
        [PadL [(0, 0), (1, 1), (1, 1), (0, 0)],
         ConvL [Some 3, Some 3, Some 3, Some 128] [1, 2, 2, 1] VALID, AddL, ReluL, BatchNormL]
   \<and> map get_shape (applied sample_images y) ! 0 = Some [None, Some 194, Some 194, Some 3]
   \<and> get_shape y = Some [None, Some 96, Some 96, Some 128]
   \<and> map get_shape (filter is_batch_norm (applied sample_images out)) =
          [Some [None, Some 96, Some 96, Some 128], Some [None, Some 48, Some 48, Some 128],
           Some [None, Some 24, Some 24, Some 256], Some [None, Some 12, Some 12, Some 256],
           Some [None, Some 6, Some 6, Some 512], Some [None, Some 3, Some 3, Some 512]]"
proof -
  have sh: "get_shape sample_images = Some [None, Some 192, Some 192, Some 3]"
    by (simp add: sample_images_def INPUT_SIDE_def INPUT_DEPTH_def)
  from eq_conv_layer_ok[OF sh, of 3 128 2 "PyBool False" empty_graph] obtain y g' where
    1: "eq_conv_layer sample_images 3 128 [1, 2, 2, 1] (PyBool False) empty_graph = (Inr y, g')"
    by (auto simp: INT32_MAX_def)
  from sample_get_ok[of sample_num_classes sample_keep_prob sample_is_training False empty_graph]
  obtain out g1 where
    2: "get sample_num_classes sample_images sample_keep_prob sample_is_training False empty_graph
          = (Inr out, g1)"
    by (auto simp: sample_num_classes_def)
  from eq_conv_layer_same_padding[of sample_images 3 128 2 "PyBool False" empty_graph y g' None
      192 192 3 sample_num_classes sample_images sample_keep_prob sample_is_training False
      empty_graph out g1 None 3]
  show ?thesis using 1 2 sh by (auto simp: eq_conv_block_def)
qed



text \<open>
  Claim C10. Every \<open>eq_conv_layer\<close> that is built has added the moving mean and the
  moving variance of its batch normalisation, the two statistics its normalisation node
  reads, to the collection \<open>REQUIRED_NON_TRAINABLES\<close>. \<open>variables_to_save(addlist)\<close> is
  the list of trainable variables, then that collection, then \<open>addlist\<close>. Hence after
  \<open>get\<close> every statistic read by a normalisation node of the network, twelve in all, is
  the name of a variable in the list to save, and that variable is not trainable.
\<close>

theorem variables_to_save_has_statistics:
  "(eq_conv_layer x k n strides it g = (Inr y, g') \<longrightarrow>
      bn_var (var_scope g @ [''eq_conv_layer'']) ''moving_mean'' n ZerosInit False
        \<in> set (get_collection_ref REQUIRED_NON_TRAINABLES g')
    \<and> bn_var (var_scope g @ [''eq_conv_layer'']) ''moving_variance'' n OnesInit False
        \<in> set (get_collection_ref REQUIRED_NON_TRAINABLES g')
    \<and> bn_statistics y =
        [var_name (bn_var (var_scope g @ [''eq_conv_layer'']) ''moving_mean'' n ZerosInit False),
         var_name (bn_var (var_scope g @ [''eq_conv_layer'']) ''moving_variance'' n OnesInit False)])
   \<and> variables_to_save addlist g
        = trainable_variables g @ get_collection_ref REQUIRED_NON_TRAINABLES g @ addlist
   \<and> (get num_classes images_ph keep_prob_ph is_training_ph train_phase g0 = (Inr out, g1) \<longrightarrow>
        (\<forall>s \<in> set (concat (map bn_statistics (applied images_ph out))).
           \<exists>v \<in> set (variables_to_save addlist g1). var_name v = s \<and> \<not> var_trainable v)
      \<and> length (concat (map bn_statistics (applied images_ph out))) = 12)"
proof (intro conjI impI)
  assume a: "eq_conv_layer x k n strides it g = (Inr y, g')"
  from eq_conv_layer_inv[OF a] obtain d pa s1 s2 where
    m: "bn_var (var_scope g @ [''eq_conv_layer'']) ''moving_mean'' n ZerosInit False
               \<in> set (collections g' REQUIRED_NON_TRAINABLES)"
      "bn_var (var_scope g @ [''eq_conv_layer'']) ''moving_variance'' n OnesInit False
               \<in> set (collections g' REQUIRED_NON_TRAINABLES)"
    and y: "y = eq_conv_out (var_scope g) (op_scope g) x k d n pa strides it s1 s2"
    by blast
  show "bn_var (var_scope g @ [''eq_conv_layer'']) ''moving_mean'' n ZerosInit False
        \<in> set (get_collection_ref REQUIRED_NON_TRAINABLES g')"
    "bn_var (var_scope g @ [''eq_conv_layer'']) ''moving_variance'' n OnesInit False
        \<in> set (get_collection_ref REQUIRED_NON_TRAINABLES g')"
    using m by (simp_all add: get_collection_ref_def)
  show "bn_statistics y =
        [var_name (bn_var (var_scope g @ [''eq_conv_layer'']) ''moving_mean'' n ZerosInit False),
         var_name (bn_var (var_scope g @ [''eq_conv_layer'']) ''moving_variance'' n OnesInit False)]"
    by (simp add: y eq_conv_out_def bn_out_def bn_statistics_def op_name_def bn_var_def)
next
  show "variables_to_save addlist g
        = trainable_variables g @ get_collection_ref REQUIRED_NON_TRAINABLES g @ addlist"
    by (simp add: variables_to_save_def)
next
  assume a: "get num_classes images_ph keep_prob_ph is_training_ph train_phase g0 = (Inr out, g1)"
  show "\<forall>s \<in> set (concat (map bn_statistics (applied images_ph out))).
           \<exists>v \<in> set (variables_to_save addlist g1). var_name v = s \<and> \<not> var_trainable v"
    by (rule get_saves_statistics[OF a])
  show "length (concat (map bn_statistics (applied images_ph out))) = 12"
    by (simp add: get_stats[OF a] stat_names_def)
qed

theorem variables_to_save_has_statistics_witness:
  "\<exists>y g' out g1.
     eq_conv_layer sample_images 3 128 [1, 2, 2, 1] (PyBool False) empty_graph = (Inr y, g')
   \<and> get sample_num_classes sample_images sample_keep_prob sample_is_training True empty_graph
       = (Inr out, g1)
   \<and> bn_statistics y = [''eq_conv_layer/BatchNorm/moving_mean'',
                         ''eq_conv_layer/BatchNorm/moving_variance'']
   \<and> bn_var [''eq_conv_layer''] ''moving_mean'' 128 ZerosInit False
        \<in> set (get_collection_ref REQUIRED_NON_TRAINABLES g')
   \<and> (\<forall>s \<in> set (concat (map bn_statistics (applied sample_images out))).
           \<exists>v \<in> set (variables_to_save [] g1). var_name v = s \<and> \<not> var_trainable v)
   \<and> length (concat (map bn_statistics (applied sample_images out))) = 12"
proof -
  have sh: "get_shape sample_images = Some [None, Some 192, Some 192, Some 3]"
    by (simp add: sample_images_def INPUT_SIDE_def INPUT_DEPTH_def)
  from eq_conv_layer_ok[OF sh, of 3 128 2 "PyBool False" empty_graph] obtain y g' where
    1: "eq_conv_layer sample_images 3 128 [1, 2, 2, 1] (PyBool False) empty_graph = (Inr y, g')"
    by (auto simp: INT32_MAX_def)
  from sample_get_ok[of sample_num_classes sample_keep_prob sample_is_training True empty_graph]
  obtain out g1 where
    2: "get sample_num_classes sample_images sample_keep_prob sample_is_training True empty_graph
          = (Inr out, g1)"
    by (auto simp: sample_num_classes_def)
  from variables_to_save_has_statistics[of sample_images 3 128 "[1, 2, 2, 1]" "PyBool False"
      empty_graph y g' "[]" sample_num_classes sample_images sample_keep_prob sample_is_training
      True empty_graph out g1] 1 2
  have "bn_var (var_scope empty_graph @ [''eq_conv_layer'']) ''moving_mean'' 128 ZerosInit False
        \<in> set (get_collection_ref REQUIRED_NON_TRAINABLES g')"
    "bn_statistics y =
        [var_name (bn_var (var_scope empty_graph @ [''eq_conv_layer'']) ''moving_mean'' 128 ZerosInit False),
         var_name (bn_var (var_scope empty_graph @ [''eq_conv_layer'']) ''moving_variance'' 128 OnesInit False)]"
    "\<forall>s \<in> set (concat (map bn_statistics (applied sample_images out))).
           \<exists>v \<in> set (variables_to_save [] g1). var_name v = s \<and> \<not> var_trainable v"
    "length (concat (map bn_statistics (applied sample_images out))) = 12"
    by blast+
  then show ?thesis using 1 2
    by (auto simp: empty_graph_def bn_var_def scoped_def)
qed

text \<open>
  Claim C4, as stated, fails: when the model file does not exist but restoring the
  checkpoint raises \<open>ValueError\<close>, \<open>export_model\<close> stops after the restore. In a world
  with no file, where every restore raises \<open>ValueError\<close>, the steps of
  \<open>export_model(10, "session", "model-0", "model.pb")\<close> are the definition of the model
  and the restore only: nothing is written and the freezing utility is not invoked.
\<close>

theorem export_model_steps_counterexample:
  "''model.pb'' \<notin> files failing_world
   \<and> main_steps (events (snd (export_model 10 ''session'' ''model-0'' ''model.pb'' failing_world)))
       = [DefineStep, RestoreStep]
   \<and> main_steps (events (snd (export_model 10 ''session'' ''model-0'' ''model.pb'' failing_world)))
       \<noteq> [DefineStep, RestoreStep, WriteStep, FreezeStep]"
proof -
  have "main_steps (events (snd (export_model 10 ''session'' ''model-0'' ''model.pb'' failing_world)))
       = [DefineStep, RestoreStep]"
    by (subst export_model_value_error)
       (simp_all add: failing_world_def main_steps_append main_steps_stdout main_step_def)
  then show ?thesis by (simp add: failing_world_def)
qed

text \<open>
  Claim C4, amended. When the model file does not exist and restoring the session from
  \<open>session_dir/input_checkpoint\<close> raises no error, \<open>export_model\<close>, for a number of
  classes that is not negative, performs exactly these steps in this order: it defines
  the inference model in a fresh graph, restores the session, writes the graph definition
  \<open>skeleton.pbtxt\<close> to \<open>session_dir\<close>, and invokes the freezing utility, which produces
  the model file; it returns \<open>None\<close>.
\<close>

theorem export_model_steps:
  assumes "model_filename \<notin> files w" and "0 \<le> num_classes"
    and "restore w (session_dir @ ''/'' @ input_checkpoint) = Restored"
  shows "fst (export_model num_classes session_dir input_checkpoint model_filename w) = Inr PyNone
    \<and> main_steps (new_events w
          (snd (export_model num_classes session_dir input_checkpoint model_filename w)))
        = [DefineStep, RestoreStep, WriteStep, FreezeStep]
    \<and> new_events w (snd (export_model num_classes session_dir input_checkpoint model_filename w))
        = [GraphCreated ''/cpu:0''] @ map StdoutTensor (stdout (model_graph num_classes))
          @ [ModelDefined num_classes False (model_graph num_classes),
             SaverCreated (all_variables (model_graph num_classes)), SessionOpened,
             RestoreCalled (session_dir @ ''/'' @ input_checkpoint),
             GraphWritten (model_graph num_classes) session_dir ''skeleton.pbtxt'' True,
             FreezeGraphCalled
               \<lparr>input_graph = session_dir @ ''/skeleton.pbtxt'', input_saver = [],
                input_binary = False,
                input_checkpoint_path = session_dir @ ''/'' @ input_checkpoint,
                output_node_names = OUTPUT_TENSOR_NAME, restore_op_name = ''save/restore_all'',
                filename_tensor_name = ''save/Const:0'', output_graph = model_filename,
                clear_devices = True, initializer_nodes = []\<rparr>,
             SessionClosed]
    \<and> files (snd (export_model num_classes session_dir input_checkpoint model_filename w))
        = insert model_filename (insert (path_join session_dir ''skeleton.pbtxt'') (files w))"
  unfolding export_model_restored[OF assms]
  by (simp add: new_events_def main_steps_append main_steps_stdout main_step_def)

theorem export_model_steps_witness:
  "''model.pb'' \<notin> files restoring_world
   \<and> fst (export_model 10 ''session'' ''model-0'' ''model.pb'' restoring_world) = Inr PyNone
   \<and> main_steps (new_events restoring_world
         (snd (export_model 10 ''session'' ''model-0'' ''model.pb'' restoring_world)))
       = [DefineStep, RestoreStep, WriteStep, FreezeStep]
   \<and> files (snd (export_model 10 ''session'' ''model-0'' ''model.pb'' restoring_world))
       = {''model.pb'', ''session/skeleton.pbtxt''}"
  using export_model_steps[of "''model.pb''" restoring_world 10 "''session''" "''model-0''"]
  by (simp add: restoring_world_def path_join_def main_steps_append main_steps_stdout
      main_step_def)

text \<open>
  Claim C9. When the model file already exists, \<open>export_model\<close> builds no graph, restores
  nothing and writes no file: it only prints that it skips the export and returns
  \<open>None\<close>. When the file does not exist and restoring the checkpoint raises
  \<open>ValueError\<close>, it prints the error and returns -1 with the session closed, before any
  graph is written and before the freezing utility is invoked: the files are those there
  were.
\<close>

theorem export_model_changes_nothing:
  "(model_filename \<in> files w \<longrightarrow>
      export_model num_classes session_dir input_checkpoint model_filename w
        = (Inr PyNone,
           w\<lparr>events := events w @
                [StdoutLine (model_filename @ '' already exists. Skipping export_model'')]\<rparr>))
   \<and> (model_filename \<notin> files w \<and> 0 \<le> num_classes
        \<and> restore w (session_dir @ ''/'' @ input_checkpoint) = RestoreValueError \<longrightarrow>
      fst (export_model num_classes session_dir input_checkpoint model_filename w)
        = Inr (PyInt (- 1))
    \<and> files (snd (export_model num_classes session_dir input_checkpoint model_filename w))
        = files w
    \<and> main_steps (new_events w
          (snd (export_model num_classes session_dir input_checkpoint model_filename w)))
        = [DefineStep, RestoreStep]
    \<and> take 2 (rev (new_events w
          (snd (export_model num_classes session_dir input_checkpoint model_filename w))))
        = [SessionClosed, StderrLine ''[E] Unable to restore from checkpoint''])"
proof (intro conjI impI; (elim conjE)?)
  assume "model_filename \<in> files w"
  then show "export_model num_classes session_dir input_checkpoint model_filename w
        = (Inr PyNone,
           w\<lparr>events := events w @
                [StdoutLine (model_filename @ '' already exists. Skipping export_model'')]\<rparr>)"
    by (rule export_model_skip)
next
  assume a: "model_filename \<notin> files w" "0 \<le> num_classes"
    "restore w (session_dir @ ''/'' @ input_checkpoint) = RestoreValueError"
  note e = export_model_value_error[OF a]
  show "fst (export_model num_classes session_dir input_checkpoint model_filename w)
        = Inr (PyInt (- 1))"
    "files (snd (export_model num_classes session_dir input_checkpoint model_filename w))
        = files w"
    "main_steps (new_events w
          (snd (export_model num_classes session_dir input_checkpoint model_filename w)))
        = [DefineStep, RestoreStep]"
    "take 2 (rev (new_events w
          (snd (export_model num_classes session_dir input_checkpoint model_filename w))))
        = [SessionClosed, StderrLine ''[E] Unable to restore from checkpoint'']"
    unfolding e
    by (simp_all add: new_events_def main_steps_append main_steps_stdout main_step_def)
qed

theorem export_model_changes_nothing_witness:
  "''model.pb'' \<in> files exported_world
   \<and> export_model 10 ''session'' ''model-0'' ''model.pb'' exported_world
       = (Inr PyNone,
          exported_world\<lparr>events := [StdoutLine ''model.pb already exists. Skipping export_model'']\<rparr>)
   \<and> ''model.pb'' \<notin> files failing_world
   \<and> fst (export_model 10 ''session'' ''model-0'' ''model.pb'' failing_world) = Inr (PyInt (- 1))
   \<and> files (snd (export_model 10 ''session'' ''model-0'' ''model.pb'' failing_world)) = {}"
  using export_model_changes_nothing[of "''model.pb''" exported_world 10 "''session''" "''model-0''"]
    export_model_changes_nothing[of "''model.pb''" failing_world 10 "''session''" "''model-0''"]
  by (simp add: exported_world_def failing_world_def)



end
